theory Spec2Isabelle
  imports Complex_Main "HOL-Library.Word" "HOL-Library.Log_Nat"
begin

section \<open>The webhook autoscaler of \<^verbatim>\<open>main.go\<close>\<close>

text \<open>
  The program is one Go file: \<^verbatim>\<open>getEnvVariables\<close> reads six environment variables
  into package-level variables once, at start, and \<^verbatim>\<open>handleAutoscale\<close> answers each
  \<^verbatim>\<open>/scale\<close> request from those variables and the decoded request alone.

  The embedding keeps Go's types: \<^verbatim>\<open>int32\<close> and \<^verbatim>\<open>int64\<close> are 32 and 64 bit words read
  through \<open>sint\<close>, Go's \<^verbatim>\<open>int\<close> (64 bit) is an \<open>int\<close> that \<^verbatim>\<open>Atoi\<close> keeps in range and
  the conversion \<^verbatim>\<open>int32(replicas)\<close> truncates, maps are partial functions under an
  \<open>option\<close> for Go's \<^verbatim>\<open>nil\<close> map, and the package-level variables are a record that is
  passed to the handler.
\<close>

type_synonym int32 = "32 word"
type_synonym int64 = "64 word"

subsection \<open>float64 arithmetic\<close>

text \<open>
  The handler computes on \<^verbatim>\<open>float64\<close>. Every float64 operation the program uses is a
  field of the record below, so a statement proved for every \<open>fp\<close> holds whatever the
  rounding, the infinities and the NaN do; the IEEE 754 instance \<open>binary64\<close> further
  down runs the program on concrete inputs.

  A comparison of two floats has four outcomes that exclude one another; Go's \<^verbatim>\<open>a < b\<close>,
  \<^verbatim>\<open>a > b\<close> and \<^verbatim>\<open>a >= b\<close> are read off that outcome, and all three are false on a NaN.
\<close>

datatype comparison = Less | Equal | Greater | Unordered

record 'f float_ops =
  float64_of_int32 :: "int32 \<Rightarrow> 'f"    \<comment> \<open>\<^verbatim>\<open>float64(x)\<close>, x an int32\<close>
  float64_of_int64 :: "int64 \<Rightarrow> 'f"    \<comment> \<open>\<^verbatim>\<open>float64(x)\<close>, x an int64\<close>
  literal :: "real \<Rightarrow> 'f"               \<comment> \<open>a constant of the program text: \<^verbatim>\<open>0.7\<close>, \<^verbatim>\<open>5.0\<close>, \<^verbatim>\<open>1\<close>\<close>
  Add :: "'f \<Rightarrow> 'f \<Rightarrow> 'f"
  Mul :: "'f \<Rightarrow> 'f \<Rightarrow> 'f"
  Quo :: "'f \<Rightarrow> 'f \<Rightarrow> 'f"
  Cmp :: "'f \<Rightarrow> 'f \<Rightarrow> comparison"
  Ceil :: "'f \<Rightarrow> 'f"                    \<comment> \<open>\<^verbatim>\<open>math.Ceil\<close>\<close>
  int32_of_float64 :: "'f \<Rightarrow> int32"    \<comment> \<open>\<^verbatim>\<open>int32(x)\<close>, x a float64\<close>
  ParseFloat :: "string \<Rightarrow> 'f option"  \<comment> \<open>\<^verbatim>\<open>strconv.ParseFloat(s, 64)\<close>; \<open>None\<close> is \<^verbatim>\<open>err != nil\<close>\<close>

definition flt :: "'f float_ops \<Rightarrow> 'f \<Rightarrow> 'f \<Rightarrow> bool" where
  "flt fp a b = (Cmp fp a b = Less)"

definition fgt :: "'f float_ops \<Rightarrow> 'f \<Rightarrow> 'f \<Rightarrow> bool" where
  "fgt fp a b = (Cmp fp a b = Greater)"

definition fge :: "'f float_ops \<Rightarrow> 'f \<Rightarrow> 'f \<Rightarrow> bool" where
  "fge fp a b = (Cmp fp a b = Greater \<or> Cmp fp a b = Equal)"

subsection \<open>strconv.Atoi and strconv.ParseInt\<close>

text \<open>
  Both accept an optional sign followed by one or more decimal digits and fail on
  anything else (base 10 admits no underscore) and on a value outside the integer type:
  64 bits for \<^verbatim>\<open>Atoi\<close>, whose result is Go's \<^verbatim>\<open>int\<close>, and \<^verbatim>\<open>bitSize\<close> bits for
  \<^verbatim>\<open>ParseInt(s, 10, bitSize)\<close>. \<open>None\<close> is \<^verbatim>\<open>err != nil\<close>.
\<close>

definition digit :: "char \<Rightarrow> nat option" where
  "digit c = (let n = (of_char c :: nat) in if 48 \<le> n \<and> n \<le> 57 then Some (n - 48) else None)"

fun digits :: "nat \<Rightarrow> string \<Rightarrow> nat option" where
  "digits n [] = Some n"
| "digits n (c # cs) = (case digit c of None \<Rightarrow> None | Some d \<Rightarrow> digits (n * 10 + d) cs)"

definition ParseInt :: "string \<Rightarrow> nat \<Rightarrow> int option" where
  "ParseInt s bitSize =
     (case s of
        [] \<Rightarrow> None
      | c # cs \<Rightarrow>
          (let neg = (c = CHR ''-'');
               s' = (if c = CHR ''-'' \<or> c = CHR ''+'' then cs else s)
           in if s' = [] then None
              else (case digits 0 s' of
                      None \<Rightarrow> None
                    | Some un \<Rightarrow>
                        if \<not> neg \<and> 2 ^ (bitSize - 1) \<le> un then None
                        else if neg \<and> 2 ^ (bitSize - 1) < un then None
                        else Some (if neg then - int un else int un))))"

definition Atoi :: "string \<Rightarrow> int option" where
  "Atoi s = ParseInt s 64"

subsection \<open>The package-level variables\<close>

record 'f config =
  replicaUpperThreshold :: 'f
  replicaLowerThreshold :: 'f
  scaleFactor :: 'f
  minReplicasCount :: int32
  maxReplicasCount :: int32
  fixedReplicasOverrideEnabled :: bool

text \<open>The values the variables are declared with (lines 17 to 24).\<close>

definition initial :: "'f float_ops \<Rightarrow> 'f config" where
  "initial fp =
     \<lparr> replicaUpperThreshold = literal fp (7 / 10),
       replicaLowerThreshold = literal fp (3 / 10),
       scaleFactor = literal fp 2,
       minReplicasCount = 2,
       maxReplicasCount = 0,
       fixedReplicasOverrideEnabled = False \<rparr>"

subsection \<open>The review request and response\<close>

text \<open>
  The types come from the Agones API package; these are the fields the handler reads
  (\<^verbatim>\<open>Request.UID\<close>, \<^verbatim>\<open>Request.Annotations\<close>, \<^verbatim>\<open>Request.Status.Replicas\<close>,
  \<^verbatim>\<open>Request.Status.AllocatedReplicas\<close>, \<^verbatim>\<open>Request.Status.Counters\<close>) and writes.
\<close>

record AggregatedCounterStatus =
  AllocatedCount :: int64
  AllocatedCapacity :: int64
  Count :: int64
  Capacity :: int64

record FleetAutoscaleRequest =
  request_UID :: string
  request_Annotations :: "(string \<rightharpoonup> string) option"
  status_Replicas :: int32
  status_AllocatedReplicas :: int32
  status_Counters :: "(string \<rightharpoonup> AggregatedCounterStatus) option"

record FleetAutoscaleResponse =
  Scale :: bool
  Replicas :: int32
  UID :: string

text \<open>\<^verbatim>\<open>http.Error(w, msg, http.StatusBadRequest)\<close> followed by \<^verbatim>\<open>return\<close>.\<close>

datatype http_error = StatusBadRequest string

text \<open>
  The handler's float64 divisions, recorded as it performs them, each with its integer
  operands: \<^verbatim>\<open>float64(room.Count) / capPerReplica\<close> (line 201),
  \<^verbatim>\<open>float64(AllocatedReplicas) / float64(Replicas)\<close> (line 235) and
  \<^verbatim>\<open>float64(Replicas) / scaleFactor\<close> (line 248).
\<close>

datatype division =
  CapacityDivision int64
| AllocatedDivision int32 int32
| DownscaleDivision int32

subsection \<open>handleAutoscale\<close>

text \<open>Lines 169 and 170: the nil check and the lookup of \<^verbatim>\<open>fixedReplicas\<close>.\<close>

definition fixedReplicasAnnotation :: "FleetAutoscaleRequest \<Rightarrow> string option" where
  "fixedReplicasAnnotation faReq =
     (case request_Annotations faReq of
        None \<Rightarrow> None
      | Some annotations \<Rightarrow> annotations ''fixedReplicas'')"

text \<open>Lines 193 to 197: the nil check, the lookup of \<^verbatim>\<open>rooms\<close> and the guard on it.\<close>

definition roomsCounter :: "FleetAutoscaleRequest \<Rightarrow> AggregatedCounterStatus option" where
  "roomsCounter faReq =
     (case status_Counters faReq of
        None \<Rightarrow> None
      | Some counters \<Rightarrow>
          (case counters ''rooms'' of
             None \<Rightarrow> None
           | Some room \<Rightarrow>
               if 0 < sint (Capacity room) \<and> 0 < sint (status_Replicas faReq)
               then Some room else None))"

text \<open>Lines 203 to 208 and again 213 to 218: the two clamps, in the source's order.\<close>

definition clampMinMax :: "'f config \<Rightarrow> int32 \<Rightarrow> int32" where
  "clampMinMax cfg n =
     (let n1 = (if sint n < sint (minReplicasCount cfg) then minReplicasCount cfg else n)
      in if 0 < sint (maxReplicasCount cfg) \<and> sint (maxReplicasCount cfg) < sint n1
         then maxReplicasCount cfg else n1)"

text \<open>Lines 198 to 231: the counter branch, which returns without reaching line 257.\<close>

definition capacityMode ::
  "'f float_ops \<Rightarrow> 'f config \<Rightarrow> FleetAutoscaleResponse \<Rightarrow> int32 \<Rightarrow> AggregatedCounterStatus
     \<Rightarrow> FleetAutoscaleResponse" where
  "capacityMode fp cfg faResp current room =
     (let capPerReplica = literal fp 5;
          desired = clampMinMax cfg
            (int32_of_float64 fp (Ceil fp (Quo fp (float64_of_int64 fp (Count room)) capPerReplica)));
          next = clampMinMax cfg
            (int32_of_float64 fp (Ceil fp (Mul fp (float64_of_int32 fp desired) (scaleFactor cfg))))
      in if next \<noteq> current then faResp\<lparr>Scale := True, Replicas := next\<rparr> else faResp)"

text \<open>Lines 235 to 249: the thresholds on the allocated fraction.\<close>

definition thresholdMode ::
  "'f float_ops \<Rightarrow> 'f config \<Rightarrow> FleetAutoscaleResponse \<Rightarrow> FleetAutoscaleRequest
     \<Rightarrow> division list \<times> FleetAutoscaleResponse" where
  "thresholdMode fp cfg faResp faReq =
     (let replicas = status_Replicas faReq;
          allocated = status_AllocatedReplicas faReq;
          allocatedPercent = Quo fp (float64_of_int32 fp allocated) (float64_of_int32 fp replicas)
      in if fgt fp allocatedPercent (replicaUpperThreshold cfg) then
           (let currentReplicas = float64_of_int32 fp replicas;
                next = int32_of_float64 fp (Ceil fp (Mul fp currentReplicas (scaleFactor cfg)));
                next' = (if 0 < sint (maxReplicasCount cfg) \<and> sint (maxReplicasCount cfg) < sint next
                         then maxReplicasCount cfg else next)
            in ([AllocatedDivision allocated replicas],
                faResp\<lparr>Scale := True, Replicas := next'\<rparr>))
         else if flt fp allocatedPercent (replicaLowerThreshold cfg)
                 \<and> sint (minReplicasCount cfg) < sint replicas then
           ([AllocatedDivision allocated replicas, DownscaleDivision replicas],
            faResp\<lparr>Scale := True,
                   Replicas := int32_of_float64 fp
                     (Ceil fp (Quo fp (float64_of_int32 fp replicas) (scaleFactor cfg)))\<rparr>)
         else ([AllocatedDivision allocated replicas], faResp))"

text \<open>Lines 257 to 260: the last check before the response is encoded.\<close>

definition enforceMax :: "'f config \<Rightarrow> FleetAutoscaleResponse \<Rightarrow> FleetAutoscaleResponse" where
  "enforceMax cfg faResp =
     (if 0 < sint (maxReplicasCount cfg) \<and> sint (maxReplicasCount cfg) < sint (Replicas faResp)
      then faResp\<lparr>Scale := True, Replicas := maxReplicasCount cfg\<rparr>
      else faResp)"

text \<open>
  The handler, from the decoded request on (decoding and encoding the JSON belong to the
  transport). The result is the list of divisions performed and either the HTTP error or
  the response that is encoded.
\<close>

definition handleAutoscale ::
  "'f float_ops \<Rightarrow> 'f config \<Rightarrow> FleetAutoscaleRequest
     \<Rightarrow> division list \<times> (http_error + FleetAutoscaleResponse)" where
  "handleAutoscale fp cfg faReq =
     (let faResp = \<lparr> Scale = False, Replicas = status_Replicas faReq, UID = request_UID faReq \<rparr>
      in if fixedReplicasOverrideEnabled cfg then
           (case fixedReplicasAnnotation faReq of
              Some v \<Rightarrow>
                (case Atoi v of
                   None \<Rightarrow>
                     ([], Inl (StatusBadRequest ''Invalid fixedReplicas value. Must be an integer.''))
                 | Some replicas \<Rightarrow>
                     if replicas < 0 then
                       ([], Inl (StatusBadRequest ''Invalid fixedReplicas value. Must be >= 0.''))
                     else
                       ([], Inr (enforceMax cfg
                                  (faResp\<lparr>Scale := True, Replicas := word_of_int replicas\<rparr>))))
            | None \<Rightarrow> ([], Inr (enforceMax cfg faResp)))
         else if status_Replicas faReq \<noteq> 0 then
           (case roomsCounter faReq of
              Some room \<Rightarrow>
                ([CapacityDivision (Count room)],
                 Inr (capacityMode fp cfg faResp (status_Replicas faReq) room))
            | None \<Rightarrow>
                (let (divs, faResp') = thresholdMode fp cfg faResp faReq
                 in (divs, Inr (enforceMax cfg faResp'))))
         else ([], Inr (enforceMax cfg faResp)))"

text \<open>The decision of the specification is the handler's outcome.\<close>

definition decide ::
  "'f float_ops \<Rightarrow> 'f config \<Rightarrow> FleetAutoscaleRequest \<Rightarrow> http_error + FleetAutoscaleResponse" where
  "decide fp cfg faReq = snd (handleAutoscale fp cfg faReq)"

definition divisions :: "'f float_ops \<Rightarrow> 'f config \<Rightarrow> FleetAutoscaleRequest \<Rightarrow> division list" where
  "divisions fp cfg faReq = fst (handleAutoscale fp cfg faReq)"

subsection \<open>getEnvVariables\<close>

text \<open>
  The environment is a partial map; \<^verbatim>\<open>os.Getenv\<close> answers the empty string for a
  variable that is not set. \<^verbatim>\<open>os.Exit(1)\<close> ends the run: it is the \<open>Inl\<close> result.
\<close>

datatype exit = Exit int

definition Getenv :: "(string \<rightharpoonup> string) \<Rightarrow> string \<Rightarrow> string" where
  "Getenv env key = (case env key of None \<Rightarrow> [] | Some v \<Rightarrow> v)"

text \<open>Lines 30 to 38.\<close>

definition read_SCALE_FACTOR ::
  "'f float_ops \<Rightarrow> (string \<rightharpoonup> string) \<Rightarrow> 'f config \<Rightarrow> exit + 'f config" where
  "read_SCALE_FACTOR fp env cfg =
     (let ep = Getenv env ''SCALE_FACTOR''
      in if ep \<noteq> [] then
           (case ParseFloat fp ep of
              None \<Rightarrow> Inl (Exit 1)
            | Some factor \<Rightarrow>
                if fgt fp factor (literal fp 1) then Inr (cfg\<lparr>scaleFactor := factor\<rparr>)
                else Inr cfg)
         else Inr cfg)"

text \<open>Lines 40 to 48.\<close>

definition read_REPLICA_UPSCALE_TRIGGER ::
  "'f float_ops \<Rightarrow> (string \<rightharpoonup> string) \<Rightarrow> 'f config \<Rightarrow> exit + 'f config" where
  "read_REPLICA_UPSCALE_TRIGGER fp env cfg =
     (let ep = Getenv env ''REPLICA_UPSCALE_TRIGGER''
      in if ep \<noteq> [] then
           (case ParseFloat fp ep of
              None \<Rightarrow> Inl (Exit 1)
            | Some replicaUpTrigger \<Rightarrow>
                if fgt fp replicaUpTrigger (literal fp (1 / 10))
                then Inr (cfg\<lparr>replicaUpperThreshold := replicaUpTrigger\<rparr>)
                else Inr cfg)
         else Inr cfg)"

text \<open>Lines 50 to 58.\<close>

definition read_REPLICA_DOWNSCALE_TRIGGER ::
  "'f float_ops \<Rightarrow> (string \<rightharpoonup> string) \<Rightarrow> 'f config \<Rightarrow> exit + 'f config" where
  "read_REPLICA_DOWNSCALE_TRIGGER fp env cfg =
     (let ep = Getenv env ''REPLICA_DOWNSCALE_TRIGGER''
      in if ep \<noteq> [] then
           (case ParseFloat fp ep of
              None \<Rightarrow> Inl (Exit 1)
            | Some replicaDownTrigger \<Rightarrow>
                if flt fp replicaDownTrigger
                     (Quo fp (replicaUpperThreshold cfg) (scaleFactor cfg))
                then Inr (cfg\<lparr>replicaLowerThreshold := replicaDownTrigger\<rparr>)
                else Inr cfg)
         else Inr cfg)"

text \<open>Lines 60 to 68.\<close>

definition read_MIN_REPLICAS_COUNT ::
  "(string \<rightharpoonup> string) \<Rightarrow> 'f config \<Rightarrow> exit + 'f config" where
  "read_MIN_REPLICAS_COUNT env cfg =
     (let ep = Getenv env ''MIN_REPLICAS_COUNT''
      in if ep \<noteq> [] then
           (case ParseInt ep 32 of
              None \<Rightarrow> Inl (Exit 1)
            | Some minReplicas \<Rightarrow>
                if 0 \<le> minReplicas then Inr (cfg\<lparr>minReplicasCount := word_of_int minReplicas\<rparr>)
                else Inr cfg)
         else Inr cfg)"

text \<open>Lines 70 to 78.\<close>

definition read_MAX_REPLICAS_COUNT ::
  "(string \<rightharpoonup> string) \<Rightarrow> 'f config \<Rightarrow> exit + 'f config" where
  "read_MAX_REPLICAS_COUNT env cfg =
     (let ep = Getenv env ''MAX_REPLICAS_COUNT''
      in if ep \<noteq> [] then
           (case ParseInt ep 32 of
              None \<Rightarrow> Inl (Exit 1)
            | Some maxReplicas \<Rightarrow>
                if 0 \<le> maxReplicas then Inr (cfg\<lparr>maxReplicasCount := word_of_int maxReplicas\<rparr>)
                else Inr cfg)
         else Inr cfg)"

text \<open>Lines 80 to 88.\<close>

definition read_FIXED_REPLICAS :: "(string \<rightharpoonup> string) \<Rightarrow> 'f config \<Rightarrow> 'f config" where
  "read_FIXED_REPLICAS env cfg =
     (let ep = Getenv env ''FIXED_REPLICAS''
      in if ep \<noteq> [] then
           (if ep = ''true'' then cfg\<lparr>fixedReplicasOverrideEnabled := True\<rparr>
            else cfg\<lparr>fixedReplicasOverrideEnabled := False\<rparr>)
         else cfg)"

text \<open>Lines 95 to 102: the two checks across variables.\<close>

definition finalChecks :: "'f float_ops \<Rightarrow> 'f config \<Rightarrow> 'f config" where
  "finalChecks fp cfg =
     (let cfg1 =
            (if fge fp (replicaLowerThreshold cfg)
                  (Quo fp (replicaUpperThreshold cfg) (scaleFactor cfg))
             then cfg\<lparr>replicaLowerThreshold :=
                        Quo fp (replicaUpperThreshold cfg)
                          (Add fp (scaleFactor cfg) (literal fp 1))\<rparr>
             else cfg)
      in if 0 < sint (maxReplicasCount cfg1)
            \<and> sint (maxReplicasCount cfg1) < sint (minReplicasCount cfg1)
         then cfg1\<lparr>minReplicasCount := maxReplicasCount cfg1\<rparr>
         else cfg1)"

text \<open>
  The function, from the variables as they stand when it is called to the variables it
  leaves, or the exit. \<^verbatim>\<open>main\<close> calls it once, on \<open>initial\<close>.
\<close>

definition getEnvVariables ::
  "'f float_ops \<Rightarrow> (string \<rightharpoonup> string) \<Rightarrow> 'f config \<Rightarrow> exit + 'f config" where
  "getEnvVariables fp env cfg0 =
     (case read_SCALE_FACTOR fp env cfg0 of
        Inl e \<Rightarrow> Inl e
      | Inr cfg1 \<Rightarrow>
     (case read_REPLICA_UPSCALE_TRIGGER fp env cfg1 of
        Inl e \<Rightarrow> Inl e
      | Inr cfg2 \<Rightarrow>
     (case read_REPLICA_DOWNSCALE_TRIGGER fp env cfg2 of
        Inl e \<Rightarrow> Inl e
      | Inr cfg3 \<Rightarrow>
     (case read_MIN_REPLICAS_COUNT env cfg3 of
        Inl e \<Rightarrow> Inl e
      | Inr cfg4 \<Rightarrow>
     (case read_MAX_REPLICAS_COUNT env cfg4 of
        Inl e \<Rightarrow> Inl e
      | Inr cfg5 \<Rightarrow> Inr (finalChecks fp (read_FIXED_REPLICAS env cfg5)))))))"

section \<open>IEEE 754 binary64\<close>

text \<open>
  Go's \<^verbatim>\<open>float64\<close> on the program's operations: a finite value is the real number it
  stands for, every result is rounded to the nearest value with a 53 bit significand,
  ties to the even one, with gradual underflow below \<open>pow2 (- 1022)\<close> and overflow to an
  infinity from \<open>pow2 1024\<close> on. The two zeros are one value here: they compare equal
  and differ only as divisors, and the handler divides by a nonzero replica count, by 5.0
  and by the scale factor only.
\<close>

datatype float64 = Finite real | PosInf | NegInf | NaN

definition pow2 :: "int \<Rightarrow> real" where
  "pow2 e = (if 0 \<le> e then 2 ^ nat e else 1 / 2 ^ nat (- e))"

text \<open>The exponent \<open>e\<close> with \<open>pow2 e \<le> a < pow2 (e + 1)\<close>, for \<open>0 < a\<close>.\<close>

definition binade :: "real \<Rightarrow> int" where
  "binade a =
     (let e = (if 1 \<le> a then bitlen \<lfloor>a\<rfloor> - 1 else 1 - bitlen \<lfloor>1 / a\<rfloor>)
      in if pow2 e \<le> a then e else e - 1)"

definition nearest_even :: "real \<Rightarrow> int" where
  "nearest_even a =
     (let f = \<lfloor>a\<rfloor>; r = a - of_int f
      in if r < 1 / 2 then f else if 1 / 2 < r then f + 1 else if even f then f else f + 1)"

definition infinity :: "bool \<Rightarrow> float64" where
  "infinity negative = (if negative then NegInf else PosInf)"

definition round64 :: "real \<Rightarrow> float64" where
  "round64 q =
     (if q = 0 then Finite 0
      else
        (let a = \<bar>q\<bar>;
             e = binade a;
             ulp = pow2 (max e (- 1022) - 52);
             m = nearest_even (a / ulp)
         in if 1024 \<le> e \<or> (e = 1023 \<and> m = 2 ^ 53) then infinity (q < 0)
            else Finite (if q < 0 then - (of_int m * ulp) else of_int m * ulp)))"

fun f64_add :: "float64 \<Rightarrow> float64 \<Rightarrow> float64" where
  "f64_add (Finite a) (Finite b) = round64 (a + b)"
| "f64_add NaN _ = NaN"
| "f64_add _ NaN = NaN"
| "f64_add PosInf NegInf = NaN"
| "f64_add NegInf PosInf = NaN"
| "f64_add PosInf _ = PosInf"
| "f64_add _ PosInf = PosInf"
| "f64_add NegInf _ = NegInf"
| "f64_add _ NegInf = NegInf"

fun f64_mul :: "float64 \<Rightarrow> float64 \<Rightarrow> float64" where
  "f64_mul (Finite a) (Finite b) = round64 (a * b)"
| "f64_mul NaN _ = NaN"
| "f64_mul _ NaN = NaN"
| "f64_mul (Finite a) PosInf = (if a = 0 then NaN else infinity (a < 0))"
| "f64_mul (Finite a) NegInf = (if a = 0 then NaN else infinity (0 < a))"
| "f64_mul PosInf (Finite b) = (if b = 0 then NaN else infinity (b < 0))"
| "f64_mul NegInf (Finite b) = (if b = 0 then NaN else infinity (0 < b))"
| "f64_mul PosInf PosInf = PosInf"
| "f64_mul NegInf NegInf = PosInf"
| "f64_mul PosInf NegInf = NegInf"
| "f64_mul NegInf PosInf = NegInf"

text \<open>A zero divisor is taken as the positive zero.\<close>

fun f64_quo :: "float64 \<Rightarrow> float64 \<Rightarrow> float64" where
  "f64_quo (Finite a) (Finite b) =
     (if b = 0 then (if a = 0 then NaN else infinity (a < 0)) else round64 (a / b))"
| "f64_quo NaN _ = NaN"
| "f64_quo _ NaN = NaN"
| "f64_quo (Finite a) _ = Finite 0"
| "f64_quo PosInf (Finite b) = infinity (b < 0)"
| "f64_quo NegInf (Finite b) = infinity (0 \<le> b)"
| "f64_quo PosInf _ = NaN"
| "f64_quo NegInf _ = NaN"

fun f64_cmp :: "float64 \<Rightarrow> float64 \<Rightarrow> comparison" where
  "f64_cmp (Finite a) (Finite b) = (if a < b then Less else if a = b then Equal else Greater)"
| "f64_cmp NaN _ = Unordered"
| "f64_cmp _ NaN = Unordered"
| "f64_cmp PosInf PosInf = Equal"
| "f64_cmp NegInf NegInf = Equal"
| "f64_cmp NegInf _ = Less"
| "f64_cmp _ PosInf = Less"
| "f64_cmp PosInf _ = Greater"
| "f64_cmp _ NegInf = Greater"

fun f64_ceil :: "float64 \<Rightarrow> float64" where
  "f64_ceil (Finite a) = Finite (of_int \<lceil>a\<rceil>)"
| "f64_ceil x = x"

text \<open>
  \<^verbatim>\<open>int32(x)\<close> truncates towards zero. Where the truncated value is no int32 (and on an
  infinity or a NaN) Go leaves the result to the implementation; the instance returns
  the least int32 there.
\<close>

fun f64_to_int32 :: "float64 \<Rightarrow> int32" where
  "f64_to_int32 (Finite a) =
     (let t = (if 0 \<le> a then \<lfloor>a\<rfloor> else \<lceil>a\<rceil>)
      in if - (2 ^ 31) \<le> t \<and> t < 2 ^ 31 then word_of_int t else word_of_int (- (2 ^ 31)))"
| "f64_to_int32 x = word_of_int (- (2 ^ 31))"

text \<open>
  The plain decimal numbers among the strings \<^verbatim>\<open>ParseFloat\<close> accepts: an optional sign,
  digits, and optionally a point and more digits, with a digit on one side of the point
  at least, rounded to the nearest float64; a number that rounds to an infinity is a
  range error. \<^verbatim>\<open>ParseFloat\<close> accepts more (an exponent, hexadecimal, \<^verbatim>\<open>Inf\<close>, \<^verbatim>\<open>NaN\<close>);
  those strings are not used below, and this parser rejects them.
\<close>

fun split_point :: "string \<Rightarrow> string \<times> string" where
  "split_point [] = ([], [])"
| "split_point (c # cs) =
     (if c = CHR ''.'' then ([], cs)
      else (let (a, b) = split_point cs in (c # a, b)))"

definition parse_decimal :: "string \<Rightarrow> float64 option" where
  "parse_decimal s =
     (let signed = (s \<noteq> [] \<and> (hd s = CHR ''-'' \<or> hd s = CHR ''+''));
          neg = (s \<noteq> [] \<and> hd s = CHR ''-'');
          (ip, fp) = split_point (if signed then tl s else s)
      in if ip = [] \<and> fp = [] then None
         else (case (digits 0 ip, digits 0 fp) of
                 (Some i, Some f) \<Rightarrow>
                   (let q = real i + real f / 10 ^ length fp
                    in case round64 (if neg then - q else q) of
                         Finite r \<Rightarrow> Some (Finite r)
                       | _ \<Rightarrow> None)
               | _ \<Rightarrow> None))"

definition binary64 :: "float64 float_ops" where
  "binary64 =
     \<lparr> float64_of_int32 = (\<lambda>x. Finite (of_int (sint x))),
       float64_of_int64 = (\<lambda>x. round64 (of_int (sint x))),
       literal = round64,
       Add = f64_add, Mul = f64_mul, Quo = f64_quo, Cmp = f64_cmp, Ceil = f64_ceil,
       int32_of_float64 = f64_to_int32,
       ParseFloat = parse_decimal \<rparr>"

section \<open>Notions of the specification\<close>

text \<open>
  Following the specification: \<open>n\<close> clamped to the interval from \<open>lo\<close> to \<open>hi\<close>, where
  \<open>hi = 0\<close> (any \<open>hi\<close> that is not positive) stands for no upper bound.
\<close>

definition clamp :: "int32 \<Rightarrow> int32 \<Rightarrow> int32 \<Rightarrow> int32" where
  "clamp lo hi n =
     word_of_int (if 0 < sint hi then min (sint hi) (max (sint lo) (sint n))
                  else max (sint lo) (sint n))"

text \<open>
  Following the specification: a variable that is set (its value is not empty) and whose
  value does not parse as its type.
\<close>

definition float_unparsable :: "'f float_ops \<Rightarrow> (string \<rightharpoonup> string) \<Rightarrow> string \<Rightarrow> bool" where
  "float_unparsable fp env key =
     (Getenv env key \<noteq> [] \<and> ParseFloat fp (Getenv env key) = None)"

definition int_unparsable :: "(string \<rightharpoonup> string) \<Rightarrow> string \<Rightarrow> bool" where
  "int_unparsable env key = (Getenv env key \<noteq> [] \<and> ParseInt (Getenv env key) 32 = None)"

text \<open>The response as line 162 builds it, before any branch changes it.\<close>

definition initialResponse :: "FleetAutoscaleRequest \<Rightarrow> FleetAutoscaleResponse" where
  "initialResponse faReq =
     \<lparr> Scale = False, Replicas = status_Replicas faReq, UID = request_UID faReq \<rparr>"

section \<open>Inputs for the examples\<close>

text \<open>A request with no annotations and no counters.\<close>

definition plainRequest :: "int32 \<Rightarrow> int32 \<Rightarrow> FleetAutoscaleRequest" where
  "plainRequest replicas allocated =
     \<lparr> request_UID = ''uid-1'', request_Annotations = None, status_Replicas = replicas,
       status_AllocatedReplicas = allocated, status_Counters = None \<rparr>"

text \<open>A request that carries the annotation \<^verbatim>\<open>fixedReplicas\<close>.\<close>

definition annotatedRequest :: "int32 \<Rightarrow> int32 \<Rightarrow> string \<Rightarrow> FleetAutoscaleRequest" where
  "annotatedRequest replicas allocated v =
     (plainRequest replicas allocated)\<lparr>request_Annotations := Some [''fixedReplicas'' \<mapsto> v]\<rparr>"

text \<open>A request that carries the counter \<^verbatim>\<open>rooms\<close>.\<close>

definition rooms :: "int64 \<Rightarrow> int64 \<Rightarrow> AggregatedCounterStatus" where
  "rooms count capacity =
     \<lparr> AllocatedCount = 0, AllocatedCapacity = 0, Count = count, Capacity = capacity \<rparr>"

definition roomsRequest :: "int32 \<Rightarrow> int32 \<Rightarrow> int64 \<Rightarrow> int64 \<Rightarrow> FleetAutoscaleRequest" where
  "roomsRequest replicas allocated count capacity =
     (plainRequest replicas allocated)\<lparr>status_Counters := Some [''rooms'' \<mapsto> rooms count capacity]\<rparr>"

text \<open>The variables after a start with \<^verbatim>\<open>FIXED_REPLICAS=true\<close>.\<close>

definition fixed_config :: "float64 config" where
  "fixed_config = (initial binary64)\<lparr>fixedReplicasOverrideEnabled := True\<rparr>"

text \<open>The variables after a start with \<^verbatim>\<open>MAX_REPLICAS_COUNT=6\<close>.\<close>

definition max6_config :: "float64 config" where
  "max6_config = (initial binary64)\<lparr>maxReplicasCount := 6\<rparr>"

text \<open>The variables after a start with \<^verbatim>\<open>MIN_REPLICAS_COUNT=8\<close>.\<close>

definition min8_config :: "float64 config" where
  "min8_config = (initial binary64)\<lparr>minReplicasCount := 8\<rparr>"

text \<open>
  A start with a scale factor of 1.25 and the thresholds 0.9375 and 0.71875, all three
  float64 values; the lower threshold is below \<open>0.9375 / 1.25 = 0.75\<close>.
\<close>

definition flap_env :: "string \<rightharpoonup> string" where
  "flap_env =
     [''SCALE_FACTOR'' \<mapsto> ''1.25'',
      ''REPLICA_UPSCALE_TRIGGER'' \<mapsto> ''0.9375'',
      ''REPLICA_DOWNSCALE_TRIGGER'' \<mapsto> ''0.71875'']"

definition flap_config :: "float64 config" where
  "flap_config =
     \<lparr> replicaUpperThreshold = Finite (15 / 16),
       replicaLowerThreshold = Finite (23 / 32),
       scaleFactor = Finite (5 / 4),
       minReplicasCount = 2,
       maxReplicasCount = 0,
       fixedReplicasOverrideEnabled = False \<rparr>"

text \<open>A start in which every numeric variable parses and fails its range check.\<close>

definition out_of_range_env :: "string \<rightharpoonup> string" where
  "out_of_range_env =
     [''SCALE_FACTOR'' \<mapsto> ''0.5'',
      ''REPLICA_UPSCALE_TRIGGER'' \<mapsto> ''0.05'',
      ''REPLICA_DOWNSCALE_TRIGGER'' \<mapsto> ''0.9'',
      ''MIN_REPLICAS_COUNT'' \<mapsto> ''-1'',
      ''MAX_REPLICAS_COUNT'' \<mapsto> ''-2'']"

section \<open>Evaluation\<close>

text \<open>
  Rules that run the definitions on numerals: the bit length by halving, the fields of
  \<open>binary64\<close>, and the definitions to unfold. In the examples a \<open>let\<close> is evaluated
  value first (\<open>let_weak_cong\<close>), as the program does.
\<close>

lemma bitlen_numeral: "bitlen (numeral k) = bitlen (numeral k div 2) + 1"
  by (subst compute_bitlen) simp

lemma bitlen_one: "bitlen 1 = 1"
  by (subst compute_bitlen) simp

lemma binary64_sel:
  "float64_of_int32 binary64 x = Finite (of_int (sint x))"
  "float64_of_int64 binary64 y = round64 (of_int (sint y))"
  "literal binary64 = round64"
  "Add binary64 = f64_add"
  "Mul binary64 = f64_mul"
  "Quo binary64 = f64_quo"
  "Cmp binary64 = f64_cmp"
  "Ceil binary64 = f64_ceil"
  "int32_of_float64 binary64 = f64_to_int32"
  "ParseFloat binary64 = parse_decimal"
  by (simp_all add: binary64_def)

lemmas float_eval =
  round64_def binade_def pow2_def nearest_even_def infinity_def bitlen_numeral bitlen_one Let_def

lemmas handler_eval =
  handleAutoscale_def thresholdMode_def capacityMode_def clampMinMax_def enforceMax_def
  roomsCounter_def fixedReplicasAnnotation_def decide_def divisions_def
  binary64_sel initial_def fgt_def flt_def fge_def Atoi_def ParseInt_def digit_def
  plainRequest_def annotatedRequest_def roomsRequest_def rooms_def

lemmas config_eval =
  getEnvVariables_def read_SCALE_FACTOR_def read_REPLICA_UPSCALE_TRIGGER_def
  read_REPLICA_DOWNSCALE_TRIGGER_def read_MIN_REPLICAS_COUNT_def read_MAX_REPLICAS_COUNT_def
  read_FIXED_REPLICAS_def finalChecks_def Getenv_def parse_decimal_def ParseInt_def digit_def
  binary64_sel initial_def fgt_def flt_def fge_def

section \<open>The branches of the handler\<close>

lemma clampMinMax_clamp:
  "clampMinMax cfg n = clamp (minReplicasCount cfg) (maxReplicasCount cfg) n"
  by (simp add: clampMinMax_def clamp_def Let_def min_def max_def)

lemma clampMinMax_le_max:
  "0 < sint (maxReplicasCount cfg) \<Longrightarrow>
   sint (clampMinMax cfg n) \<le> sint (maxReplicasCount cfg)"
  by (simp add: clampMinMax_def Let_def)

lemma clampMinMax_thresholds:
  "clampMinMax (cfg\<lparr>replicaUpperThreshold := u, replicaLowerThreshold := l\<rparr>) n
     = clampMinMax cfg n"
  by (simp add: clampMinMax_def Let_def)

lemma enforceMax_le_max:
  "0 < sint (maxReplicasCount cfg) \<Longrightarrow>
   sint (Replicas (enforceMax cfg r)) \<le> sint (maxReplicasCount cfg)"
  by (simp add: enforceMax_def)

lemma capacityMode_Replicas:
  "Replicas faResp = current \<Longrightarrow>
   Replicas (capacityMode fp cfg faResp current room) =
     clampMinMax cfg (int32_of_float64 fp (Ceil fp (Mul fp (float64_of_int32 fp
       (clampMinMax cfg (int32_of_float64 fp (Ceil fp
          (Quo fp (float64_of_int64 fp (Count room)) (literal fp 5))))))
       (scaleFactor cfg))))"
  by (simp add: capacityMode_def Let_def)

lemma capacityMode_thresholds:
  "capacityMode fp (cfg\<lparr>replicaUpperThreshold := u, replicaLowerThreshold := l\<rparr>) r c room
     = capacityMode fp cfg r c room"
  by (simp add: capacityMode_def clampMinMax_thresholds)

lemma handle_override_absent:
  "fixedReplicasOverrideEnabled cfg \<Longrightarrow> fixedReplicasAnnotation faReq = None \<Longrightarrow>
   handleAutoscale fp cfg faReq = ([], Inr (enforceMax cfg (initialResponse faReq)))"
  by (simp add: handleAutoscale_def initialResponse_def Let_def)

lemma handle_override_present:
  "fixedReplicasOverrideEnabled cfg \<Longrightarrow> fixedReplicasAnnotation faReq = Some v \<Longrightarrow>
   handleAutoscale fp cfg faReq =
     (case Atoi v of
        None \<Rightarrow> ([], Inl (StatusBadRequest ''Invalid fixedReplicas value. Must be an integer.''))
      | Some replicas \<Rightarrow>
          if replicas < 0
          then ([], Inl (StatusBadRequest ''Invalid fixedReplicas value. Must be >= 0.''))
          else ([], Inr (enforceMax cfg
                  ((initialResponse faReq)\<lparr>Scale := True, Replicas := word_of_int replicas\<rparr>))))"
  by (simp add: handleAutoscale_def initialResponse_def Let_def split: option.splits)

lemma handle_zero:
  "\<not> fixedReplicasOverrideEnabled cfg \<Longrightarrow> status_Replicas faReq = 0 \<Longrightarrow>
   handleAutoscale fp cfg faReq = ([], Inr (enforceMax cfg (initialResponse faReq)))"
  by (simp add: handleAutoscale_def initialResponse_def Let_def)

lemma handle_capacity:
  "\<not> fixedReplicasOverrideEnabled cfg \<Longrightarrow> status_Replicas faReq \<noteq> 0 \<Longrightarrow>
   roomsCounter faReq = Some room \<Longrightarrow>
   handleAutoscale fp cfg faReq =
     ([CapacityDivision (Count room)],
      Inr (capacityMode fp cfg (initialResponse faReq) (status_Replicas faReq) room))"
  by (simp add: handleAutoscale_def initialResponse_def Let_def)

lemma handle_threshold:
  "\<not> fixedReplicasOverrideEnabled cfg \<Longrightarrow> status_Replicas faReq \<noteq> 0 \<Longrightarrow>
   roomsCounter faReq = None \<Longrightarrow>
   handleAutoscale fp cfg faReq =
     (fst (thresholdMode fp cfg (initialResponse faReq) faReq),
      Inr (enforceMax cfg (snd (thresholdMode fp cfg (initialResponse faReq) faReq))))"
  by (simp add: handleAutoscale_def initialResponse_def Let_def split: prod.splits)

section \<open>The claims\<close>

subsection \<open>C3: the rejection\<close>

text \<open>
  C3. The handler answers with the HTTP error 400 and no response exactly when the fixed
  override is enabled, the annotation \<^verbatim>\<open>fixedReplicas\<close> is present, and its value is no
  integer for \<^verbatim>\<open>Atoi\<close> or is negative. In every other case it answers with a response:
  there is no error with the override disabled or the annotation absent.
\<close>

theorem invalid_input_iff:
  "((\<exists>msg. decide fp cfg faReq = Inl (StatusBadRequest msg)) \<longleftrightarrow>
      fixedReplicasOverrideEnabled cfg \<and>
      (\<exists>v. fixedReplicasAnnotation faReq = Some v \<and>
           (Atoi v = None \<or> (\<exists>n. Atoi v = Some n \<and> n < 0))))
   \<and> ((\<exists>faResp. decide fp cfg faReq = Inr faResp) \<longleftrightarrow>
      \<not> (fixedReplicasOverrideEnabled cfg \<and>
         (\<exists>v. fixedReplicasAnnotation faReq = Some v \<and>
              (Atoi v = None \<or> (\<exists>n. Atoi v = Some n \<and> n < 0)))))"
proof (cases "fixedReplicasOverrideEnabled cfg")
  case True
  show ?thesis
  proof (cases "fixedReplicasAnnotation faReq")
    case None
    with True show ?thesis by (simp add: decide_def handle_override_absent)
  next
    case (Some v)
    with True show ?thesis
      by (cases "Atoi v") (simp_all add: decide_def handle_override_present)
  qed
next
  case False
  show ?thesis
  proof (cases "status_Replicas faReq = 0")
    case True
    with False show ?thesis by (simp add: decide_def handle_zero)
  next
    case nz: False
    with False show ?thesis
      by (cases "roomsCounter faReq") (simp_all add: decide_def handle_threshold handle_capacity)
  qed
qed


text \<open>
  With the override enabled, \<^verbatim>\<open>-1\<close> and \<^verbatim>\<open>three\<close> are rejected and a request without
  the annotation is answered; with the override disabled \<^verbatim>\<open>-1\<close> is not even read.
\<close>

theorem invalid_input_iff_witness:
  "decide binary64 fixed_config (annotatedRequest 3 1 ''-1'')
     = Inl (StatusBadRequest ''Invalid fixedReplicas value. Must be >= 0.'')
   \<and> decide binary64 fixed_config (annotatedRequest 3 1 ''three'')
     = Inl (StatusBadRequest ''Invalid fixedReplicas value. Must be an integer.'')
   \<and> (\<exists>faResp. decide binary64 fixed_config (plainRequest 3 1) = Inr faResp)
   \<and> (\<exists>faResp. decide binary64 (initial binary64) (annotatedRequest 3 1 ''-1'') = Inr faResp)"
proof -
  have a: "fixedReplicasOverrideEnabled fixed_config"
    by (simp add: fixed_config_def)
  have b: "fixedReplicasAnnotation (annotatedRequest 3 1 ''-1'') = Some ''-1''"
    by (simp add: fixedReplicasAnnotation_def annotatedRequest_def)
  have c: "Atoi ''-1'' = Some (- 1)"
    by (simp add: Atoi_def ParseInt_def digit_def)
  have d: "fixedReplicasAnnotation (plainRequest 3 1) = None"
    by (simp add: fixedReplicasAnnotation_def plainRequest_def)
  have e: "\<not> fixedReplicasOverrideEnabled (initial binary64)"
    by (simp add: initial_def)
  have 1: "decide binary64 fixed_config (annotatedRequest 3 1 ''-1'')
     = Inl (StatusBadRequest ''Invalid fixedReplicas value. Must be >= 0.'')"
    by (simp add: decide_def handle_override_present [OF a b] c)
  have 2: "decide binary64 fixed_config (annotatedRequest 3 1 ''three'')
     = Inl (StatusBadRequest ''Invalid fixedReplicas value. Must be an integer.'')"
    by (simp add: handler_eval fixed_config_def)
  from invalid_input_iff [of binary64 fixed_config "plainRequest 3 1"] a d
  have 3: "\<exists>faResp. decide binary64 fixed_config (plainRequest 3 1) = Inr faResp"
    by simp
  from invalid_input_iff [of binary64 "initial binary64" "annotatedRequest 3 1 ''-1''"] e
  have 4: "\<exists>faResp. decide binary64 (initial binary64) (annotatedRequest 3 1 ''-1'') = Inr faResp"
    by simp
  from 1 2 3 4 show ?thesis by simp
qed


subsection \<open>C5: the upper bound\<close>

text \<open>
  C5. Whenever the handler answers with a response, in whatever branch, and
  \<^verbatim>\<open>maxReplicasCount\<close> is positive, the replicas of the response do not exceed it.
\<close>

theorem replicas_never_exceed_max:
  assumes dec: "decide fp cfg faReq = Inr faResp" and mx: "0 < sint (maxReplicasCount cfg)"
  shows "sint (Replicas faResp) \<le> sint (maxReplicasCount cfg)"
proof (cases "fixedReplicasOverrideEnabled cfg")
  case True
  show ?thesis
  proof (cases "fixedReplicasAnnotation faReq")
    case None
    with True dec have "faResp = enforceMax cfg (initialResponse faReq)"
      by (simp add: decide_def handle_override_absent)
    with mx show ?thesis by (simp add: enforceMax_le_max)
  next
    case (Some v)
    with True dec obtain r where "faResp = enforceMax cfg r"
      by (auto simp: decide_def handle_override_present split: option.splits if_splits)
    with mx show ?thesis by (simp add: enforceMax_le_max)
  qed
next
  case False
  show ?thesis
  proof (cases "status_Replicas faReq = 0")
    case True
    with False dec have "faResp = enforceMax cfg (initialResponse faReq)"
      by (simp add: decide_def handle_zero)
    with mx show ?thesis by (simp add: enforceMax_le_max)
  next
    case nz: False
    show ?thesis
    proof (cases "roomsCounter faReq")
      case None
      with False nz dec obtain r where "faResp = enforceMax cfg r"
        by (auto simp: decide_def handle_threshold)
      with mx show ?thesis by (simp add: enforceMax_le_max)
    next
      case (Some room)
      with False nz dec
      have "faResp = capacityMode fp cfg (initialResponse faReq) (status_Replicas faReq) room"
        by (simp add: decide_def handle_capacity)
      moreover have "Replicas (initialResponse faReq) = status_Replicas faReq"
        by (simp add: initialResponse_def)
      ultimately show ?thesis
        using mx by (simp add: capacityMode_Replicas clampMinMax_le_max)
    qed
  qed
qed


text \<open>Scenario C of the specification: 4 replicas, 3 allocated, a maximum of 6.\<close>

theorem replicas_never_exceed_max_witness:
  "decide binary64 max6_config (plainRequest 4 3)
     = Inr \<lparr>Scale = True, Replicas = 6, UID = ''uid-1''\<rparr>
   \<and> 0 < sint (maxReplicasCount max6_config)
   \<and> sint (6 :: int32) \<le> sint (maxReplicasCount max6_config)"
proof -
  have run: "decide binary64 max6_config (plainRequest 4 3)
      = Inr \<lparr>Scale = True, Replicas = 6, UID = ''uid-1''\<rparr>"
    by (simp add: handler_eval max6_config_def float_eval
        cong: let_weak_cong)
  have mx: "0 < sint (maxReplicasCount max6_config)"
    by (simp add: max6_config_def)
  from replicas_never_exceed_max [OF run mx] run mx show ?thesis
    by simp
qed

subsection \<open>C9: the override enabled, the annotation absent\<close>

text \<open>
  C9. With the fixed override enabled and no \<^verbatim>\<open>fixedReplicas\<close> annotation in the request
  (no such key, or a nil map), the handler performs no division, so it enters neither
  the counter branch nor the threshold branch, and answers with \<^verbatim>\<open>Scale = false\<close> and the
  current replicas; only the final check applies, which answers \<^verbatim>\<open>Scale = true\<close> and
  \<^verbatim>\<open>maxReplicasCount\<close> when that is positive and below the current replicas.
\<close>

theorem override_without_annotation:
  assumes "fixedReplicasOverrideEnabled cfg" and "fixedReplicasAnnotation faReq = None"
  shows "handleAutoscale fp cfg faReq =
    ([], Inr (if 0 < sint (maxReplicasCount cfg)
                 \<and> sint (maxReplicasCount cfg) < sint (status_Replicas faReq)
              then \<lparr>Scale = True, Replicas = maxReplicasCount cfg, UID = request_UID faReq\<rparr>
              else \<lparr>Scale = False, Replicas = status_Replicas faReq,
                     UID = request_UID faReq\<rparr>))"
  using assms by (simp add: handle_override_absent enforceMax_def initialResponse_def)

text \<open>
  A request with a usable \<^verbatim>\<open>rooms\<close> counter and 9 of 10 replicas allocated, which both
  other branches would scale up: it is left at 10, and brought to a maximum of 6.
\<close>

theorem override_without_annotation_witness:
  "fixedReplicasOverrideEnabled fixed_config
   \<and> fixedReplicasAnnotation (roomsRequest 10 9 50 100) = None
   \<and> handleAutoscale binary64 fixed_config (roomsRequest 10 9 50 100)
       = ([], Inr \<lparr>Scale = False, Replicas = 10, UID = ''uid-1''\<rparr>)
   \<and> handleAutoscale binary64 (fixed_config\<lparr>maxReplicasCount := 6\<rparr>) (roomsRequest 10 9 50 100)
       = ([], Inr \<lparr>Scale = True, Replicas = 6, UID = ''uid-1''\<rparr>)"
proof -
  have a: "fixedReplicasOverrideEnabled fixed_config"
    by (simp add: fixed_config_def)
  have a': "fixedReplicasOverrideEnabled (fixed_config\<lparr>maxReplicasCount := 6\<rparr>)"
    by (simp add: fixed_config_def)
  have b: "fixedReplicasAnnotation (roomsRequest 10 9 50 100) = None"
    by (simp add: fixedReplicasAnnotation_def roomsRequest_def plainRequest_def)
  from override_without_annotation [OF a b, of binary64]
       override_without_annotation [OF a' b, of binary64] a b
  show ?thesis
    by (simp add: fixed_config_def initial_def roomsRequest_def plainRequest_def)
qed

subsection \<open>C8: no replicas\<close>

text \<open>Every division in the record of a run has a nonzero replica count behind it.\<close>

lemma divisions_guarded:
  assumes "d \<in> set (divisions fp cfg faReq)"
  shows "status_Replicas faReq \<noteq> 0 \<and>
         (case d of
            AllocatedDivision a r \<Rightarrow>
              a = status_AllocatedReplicas faReq \<and> r = status_Replicas faReq
          | DownscaleDivision r \<Rightarrow> r = status_Replicas faReq
          | CapacityDivision c \<Rightarrow> 0 < sint (status_Replicas faReq))"
proof (cases "fixedReplicasOverrideEnabled cfg")
  case True
  have "divisions fp cfg faReq = []"
  proof (cases "fixedReplicasAnnotation faReq")
    case None
    with True show ?thesis by (simp add: divisions_def handle_override_absent)
  next
    case (Some v)
    with True show ?thesis
      by (cases "Atoi v") (simp_all add: divisions_def handle_override_present)
  qed
  with assms show ?thesis by simp
next
  case False
  show ?thesis
  proof (cases "status_Replicas faReq = 0")
    case True
    with False have "divisions fp cfg faReq = []"
      by (simp add: divisions_def handle_zero)
    with assms show ?thesis by simp
  next
    case nz: False
    show ?thesis
    proof (cases "roomsCounter faReq")
      case None
      with False nz assms show ?thesis
        by (auto simp: divisions_def handle_threshold thresholdMode_def Let_def split: if_splits)
    next
      case (Some room)
      then have "0 < sint (status_Replicas faReq)"
        by (auto simp: roomsCounter_def split: option.splits if_splits)
      with False nz Some assms show ?thesis
        by (simp add: divisions_def handle_capacity)
    qed
  qed
qed

text \<open>
  C8. With no current replicas and the fixed override not applying (disabled, or no
  annotation), the handler performs no division, enters neither the counter branch nor
  the threshold branch, and answers \<^verbatim>\<open>Scale = false\<close> with the current replicas. For
  every request, a division is only performed with the current replicas nonzero: they
  are the divisor of the allocated fraction, and positive in the counter branch.
\<close>

theorem zero_replicas_no_division:
  "(status_Replicas faReq = 0 \<and>
    \<not> (fixedReplicasOverrideEnabled cfg \<and> fixedReplicasAnnotation faReq \<noteq> None) \<longrightarrow>
      handleAutoscale fp cfg faReq =
        ([], Inr \<lparr>Scale = False, Replicas = status_Replicas faReq, UID = request_UID faReq\<rparr>))
   \<and> (\<forall>d \<in> set (divisions fp cfg faReq).
         status_Replicas faReq \<noteq> 0 \<and>
         (case d of
            AllocatedDivision a r \<Rightarrow>
              a = status_AllocatedReplicas faReq \<and> r = status_Replicas faReq
          | DownscaleDivision r \<Rightarrow> r = status_Replicas faReq
          | CapacityDivision c \<Rightarrow> 0 < sint (status_Replicas faReq)))"
proof (intro conjI impI ballI)
  assume a: "status_Replicas faReq = 0 \<and>
    \<not> (fixedReplicasOverrideEnabled cfg \<and> fixedReplicasAnnotation faReq \<noteq> None)"
  then have e: "enforceMax cfg (initialResponse faReq) = initialResponse faReq"
    by (simp add: enforceMax_def initialResponse_def)
  from a have "handleAutoscale fp cfg faReq = ([], Inr (enforceMax cfg (initialResponse faReq)))"
    by (cases "fixedReplicasOverrideEnabled cfg") (simp_all add: handle_override_absent handle_zero)
  with e show "handleAutoscale fp cfg faReq =
        ([], Inr \<lparr>Scale = False, Replicas = status_Replicas faReq, UID = request_UID faReq\<rparr>)"
    by (simp add: initialResponse_def)
next
  fix d assume "d \<in> set (divisions fp cfg faReq)"
  then show "status_Replicas faReq \<noteq> 0" by (simp add: divisions_guarded)
next
  fix d assume "d \<in> set (divisions fp cfg faReq)"
  then show "case d of
            AllocatedDivision a r \<Rightarrow>
              a = status_AllocatedReplicas faReq \<and> r = status_Replicas faReq
          | DownscaleDivision r \<Rightarrow> r = status_Replicas faReq
          | CapacityDivision c \<Rightarrow> 0 < sint (status_Replicas faReq)"
    by (simp add: divisions_guarded)
qed

text \<open>
  No replicas with a usable counter, and with the override enabled; and a run of the
  threshold branch with its two divisions, on 10 replicas.
\<close>

theorem zero_replicas_no_division_witness:
  "handleAutoscale binary64 (initial binary64) (roomsRequest 0 0 50 100)
     = ([], Inr \<lparr>Scale = False, Replicas = 0, UID = ''uid-1''\<rparr>)
   \<and> handleAutoscale binary64 fixed_config (plainRequest 0 0)
     = ([], Inr \<lparr>Scale = False, Replicas = 0, UID = ''uid-1''\<rparr>)
   \<and> divisions binary64 (initial binary64) (plainRequest 10 2)
     = [AllocatedDivision 2 10, DownscaleDivision 10]
   \<and> status_Replicas (plainRequest 10 2) \<noteq> 0"
proof -
  have z1: "status_Replicas (roomsRequest 0 0 50 100) = 0
      \<and> \<not> (fixedReplicasOverrideEnabled (initial binary64)
           \<and> fixedReplicasAnnotation (roomsRequest 0 0 50 100) \<noteq> None)"
    by (simp add: roomsRequest_def plainRequest_def initial_def)
  have z2: "status_Replicas (plainRequest 0 0) = 0
      \<and> \<not> (fixedReplicasOverrideEnabled fixed_config
           \<and> fixedReplicasAnnotation (plainRequest 0 0) \<noteq> None)"
    by (simp add: plainRequest_def fixedReplicasAnnotation_def)
  have d: "divisions binary64 (initial binary64) (plainRequest 10 2)
      = [AllocatedDivision 2 10, DownscaleDivision 10]"
    by (simp add: handler_eval float_eval
        cong: let_weak_cong)
  from zero_replicas_no_division [of "roomsRequest 0 0 50 100" "initial binary64" binary64] z1
  have 1: "handleAutoscale binary64 (initial binary64) (roomsRequest 0 0 50 100)
     = ([], Inr \<lparr>Scale = False, Replicas = 0, UID = ''uid-1''\<rparr>)"
    by (simp add: roomsRequest_def plainRequest_def)
  from zero_replicas_no_division [of "plainRequest 0 0" fixed_config binary64] z2
  have 2: "handleAutoscale binary64 fixed_config (plainRequest 0 0)
     = ([], Inr \<lparr>Scale = False, Replicas = 0, UID = ''uid-1''\<rparr>)"
    by (simp add: plainRequest_def)
  from zero_replicas_no_division [of "plainRequest 10 2" "initial binary64" binary64] d
  have 3: "status_Replicas (plainRequest 10 2) \<noteq> 0"
    by simp
  from 1 2 3 d show ?thesis by simp
qed

subsection \<open>C2: the fixed override\<close>

text \<open>A count below \<open>2 ^ 31\<close> is the int32 that \<^verbatim>\<open>int32(replicas)\<close> makes of it.\<close>

lemma sint_int32_of_int:
  "0 \<le> v \<Longrightarrow> v < 2 ^ 31 \<Longrightarrow> sint (word_of_int v :: int32) = v"
  by (simp add: signed_of_int signed_take_bit_int_eq_self)

text \<open>
  C2, as the code has it. With the fixed override enabled and an annotation that
  \<^verbatim>\<open>Atoi\<close> reads as a count \<open>v\<close> from 0 to the largest int32, the handler answers
  \<^verbatim>\<open>Scale = true\<close> always, also when \<open>v\<close> is the current number of replicas, and the
  replicas are \<open>v\<close>, replaced by \<^verbatim>\<open>maxReplicasCount\<close> when that is positive and smaller.
\<close>

theorem fixed_override_scales_and_caps:
  assumes "fixedReplicasOverrideEnabled cfg"
    and "fixedReplicasAnnotation faReq = Some s"
    and "Atoi s = Some v" and "0 \<le> v" and "v < 2 ^ 31"
  shows "\<exists>replicas.
    handleAutoscale fp cfg faReq =
      ([], Inr \<lparr>Scale = True, Replicas = replicas, UID = request_UID faReq\<rparr>)
    \<and> sint replicas =
        (if 0 < sint (maxReplicasCount cfg) \<and> sint (maxReplicasCount cfg) < v
         then sint (maxReplicasCount cfg) else v)"
proof -
  have v: "sint (word_of_int v :: int32) = v"
    using assms(4,5) by (rule sint_int32_of_int)
  have "handleAutoscale fp cfg faReq =
      ([], Inr (enforceMax cfg
             ((initialResponse faReq)\<lparr>Scale := True, Replicas := word_of_int v\<rparr>)))"
    using assms by (simp add: handle_override_present)
  then show ?thesis
    using v by (simp add: enforceMax_def initialResponse_def)
qed

text \<open>The annotation \<^verbatim>\<open>7\<close>, without a maximum and with a maximum of 6.\<close>

theorem fixed_override_scales_and_caps_witness:
  "handleAutoscale binary64 fixed_config (annotatedRequest 3 1 ''7'')
     = ([], Inr \<lparr>Scale = True, Replicas = 7, UID = ''uid-1''\<rparr>)
   \<and> handleAutoscale binary64 (fixed_config\<lparr>maxReplicasCount := 6\<rparr>) (annotatedRequest 3 1 ''7'')
     = ([], Inr \<lparr>Scale = True, Replicas = 6, UID = ''uid-1''\<rparr>)"
proof -
  have a: "fixedReplicasOverrideEnabled fixed_config"
    by (simp add: fixed_config_def)
  have a': "fixedReplicasOverrideEnabled (fixed_config\<lparr>maxReplicasCount := 6\<rparr>)"
    by (simp add: fixed_config_def)
  have b: "fixedReplicasAnnotation (annotatedRequest 3 1 ''7'') = Some ''7''"
    by (simp add: fixedReplicasAnnotation_def annotatedRequest_def)
  have c: "Atoi ''7'' = Some 7"
    by (simp add: Atoi_def ParseInt_def digit_def)
  have d: "(0::int) \<le> 7" "(7::int) < 2 ^ 31" by simp_all
  have u: "request_UID (annotatedRequest 3 1 ''7'') = ''uid-1''"
    by (simp add: annotatedRequest_def plainRequest_def)
  have m: "sint (maxReplicasCount fixed_config) = 0"
    "sint (maxReplicasCount (fixed_config\<lparr>maxReplicasCount := 6\<rparr>)) = 6"
    by (simp_all add: fixed_config_def initial_def)
  from fixed_override_scales_and_caps [OF a b c d, of binary64]
  obtain r1 where r1: "handleAutoscale binary64 fixed_config (annotatedRequest 3 1 ''7'')
      = ([], Inr \<lparr>Scale = True, Replicas = r1, UID = ''uid-1''\<rparr>)" "sint r1 = 7"
    by (auto simp: u m)
  from fixed_override_scales_and_caps [OF a' b c d, of binary64]
  obtain r2 where r2: "handleAutoscale binary64 (fixed_config\<lparr>maxReplicasCount := 6\<rparr>)
        (annotatedRequest 3 1 ''7'')
      = ([], Inr \<lparr>Scale = True, Replicas = r2, UID = ''uid-1''\<rparr>)" "sint r2 = 6"
    by (auto simp: u m)
  have "r1 = 7"
    using r1(2) by (intro signed_word_eqI) simp
  moreover have "r2 = 6"
    using r2(2) by (intro signed_word_eqI) simp
  ultimately show ?thesis
    using r1(1) r2(1) by simp
qed

text \<open>
  C2 as stated fails twice: the annotation \<^verbatim>\<open>3\<close> on a fleet of 3 replicas is answered
  with \<^verbatim>\<open>Scale = true\<close>, where the claim has \<^verbatim>\<open>Scale = false\<close>, and the annotation \<^verbatim>\<open>7\<close>
  under a maximum of 6 is answered with 6 replicas, where the claim has 7.
\<close>

theorem fixed_override_scale_at_current:
  "fixedReplicasOverrideEnabled fixed_config
   \<and> fixedReplicasAnnotation (annotatedRequest 3 1 ''3'') = Some ''3''
   \<and> Atoi ''3'' = Some 3
   \<and> status_Replicas (annotatedRequest 3 1 ''3'') = 3
   \<and> decide binary64 fixed_config (annotatedRequest 3 1 ''3'')
       = Inr \<lparr>Scale = True, Replicas = 3, UID = ''uid-1''\<rparr>
   \<and> decide binary64 fixed_config (annotatedRequest 3 1 ''3'')
       \<noteq> Inr \<lparr>Scale = False, Replicas = 3, UID = ''uid-1''\<rparr>
   \<and> fixedReplicasOverrideEnabled (fixed_config\<lparr>maxReplicasCount := 6\<rparr>)
   \<and> fixedReplicasAnnotation (annotatedRequest 3 1 ''7'') = Some ''7''
   \<and> Atoi ''7'' = Some 7
   \<and> decide binary64 (fixed_config\<lparr>maxReplicasCount := 6\<rparr>) (annotatedRequest 3 1 ''7'')
       = Inr \<lparr>Scale = True, Replicas = 6, UID = ''uid-1''\<rparr>"
  by (simp add: handler_eval fixed_config_def)

subsection \<open>C1: the counter branch\<close>

text \<open>
  C1, as the code has it. With the fixed override disabled, the current replicas positive
  and a \<^verbatim>\<open>rooms\<close> counter of positive capacity in the request, the handler takes the counter
  branch: the base is the ceiling of \<^verbatim>\<open>Count / 5.0\<close> clamped to the bounds, the target is
  the ceiling of base times \<^verbatim>\<open>scaleFactor\<close> clamped again, the response carries the target
  and \<^verbatim>\<open>Scale\<close> tells whether it differs from the current replicas. The only division is
  the one by 5.0, and the response is the same under any other pair of thresholds.
\<close>

theorem capacity_mode_override_disabled:
  assumes "\<not> fixedReplicasOverrideEnabled cfg"
    and "0 < sint (status_Replicas faReq)"
    and "status_Counters faReq = Some counters"
    and "counters ''rooms'' = Some room"
    and "0 < sint (Capacity room)"
  shows "(let lo = minReplicasCount cfg; hi = maxReplicasCount cfg;
              baseDesired = clamp lo hi
                (int32_of_float64 fp (Ceil fp
                   (Quo fp (float64_of_int64 fp (Count room)) (literal fp 5))));
              target = clamp lo hi
                (int32_of_float64 fp (Ceil fp
                   (Mul fp (float64_of_int32 fp baseDesired) (scaleFactor cfg))))
          in handleAutoscale fp cfg faReq =
               ([CapacityDivision (Count room)],
                Inr \<lparr>Scale = (target \<noteq> status_Replicas faReq), Replicas = target,
                     UID = request_UID faReq\<rparr>))
         \<and> handleAutoscale fp (cfg\<lparr>replicaUpperThreshold := u, replicaLowerThreshold := l\<rparr>) faReq
             = handleAutoscale fp cfg faReq"
proof -
  have nz: "status_Replicas faReq \<noteq> 0"
    using assms(2) by auto
  have rc: "roomsCounter faReq = Some room"
    using assms by (simp add: roomsCounter_def)
  show ?thesis
    using assms(1) nz rc
    by (simp add: handle_capacity capacityMode_thresholds)
       (simp add: capacityMode_def clampMinMax_clamp initialResponse_def Let_def)
qed

text \<open>
  12 rooms on 10 replicas of which 9 are allocated: the base is 3 and the target 6, where
  the thresholds would have asked for 20.
\<close>

theorem capacity_mode_override_disabled_witness:
  "handleAutoscale binary64 (initial binary64) (roomsRequest 10 9 12 100)
     = ([CapacityDivision 12], Inr \<lparr>Scale = True, Replicas = 6, UID = ''uid-1''\<rparr>)
   \<and> handleAutoscale binary64
        ((initial binary64)\<lparr>replicaUpperThreshold := Finite (1 / 2),
                             replicaLowerThreshold := Finite (1 / 4)\<rparr>)
        (roomsRequest 10 9 12 100)
     = handleAutoscale binary64 (initial binary64) (roomsRequest 10 9 12 100)"
proof -
  define base where "base = clamp (minReplicasCount (initial binary64))
    (maxReplicasCount (initial binary64))
    (int32_of_float64 binary64 (Ceil binary64
       (Quo binary64 (float64_of_int64 binary64 (Count (rooms 12 100))) (literal binary64 5))))"
  define target where "target = clamp (minReplicasCount (initial binary64))
    (maxReplicasCount (initial binary64))
    (int32_of_float64 binary64 (Ceil binary64
       (Mul binary64 (float64_of_int32 binary64 base) (scaleFactor (initial binary64)))))"
  have base: "base = 3"
    unfolding base_def
    by (simp add: clamp_def binary64_sel initial_def rooms_def float_eval cong: let_weak_cong)
  have target: "target = 6"
    unfolding target_def base
    by (simp add: clamp_def binary64_sel initial_def float_eval cong: let_weak_cong)
  have a: "\<not> fixedReplicasOverrideEnabled (initial binary64)"
    by (simp add: initial_def)
  have b: "0 < sint (status_Replicas (roomsRequest 10 9 12 100))"
    by (simp add: roomsRequest_def plainRequest_def)
  have c: "status_Counters (roomsRequest 10 9 12 100) = Some [''rooms'' \<mapsto> rooms 12 100]"
    by (simp add: roomsRequest_def plainRequest_def)
  have d: "[''rooms'' \<mapsto> rooms 12 100] ''rooms'' = Some (rooms 12 100)"
    by simp
  have e: "0 < sint (Capacity (rooms 12 100))"
    by (simp add: rooms_def)
  have sel: "status_Replicas (roomsRequest 10 9 12 100) = 10"
    "request_UID (roomsRequest 10 9 12 100) = ''uid-1''" "Count (rooms 12 100) = 12"
    by (simp_all add: roomsRequest_def plainRequest_def rooms_def)
  from capacity_mode_override_disabled
         [OF a b c d e, where fp = binary64 and u = "Finite (1 / 2)" and l = "Finite (1 / 4)"]
  show ?thesis
    unfolding Let_def base_def [symmetric] target_def [symmetric]
    by (simp add: sel base target)
qed

text \<open>
  C1 as stated fails where it says that the counter branch is taken when the override is
  enabled and no annotation is present: on the same request, with the override enabled,
  the counter branch would answer 6, and the handler answers with the 10 current replicas
  and no division performed.
\<close>

theorem capacity_mode_skipped_when_override_enabled:
  "fixedReplicasOverrideEnabled fixed_config
   \<and> fixedReplicasAnnotation (roomsRequest 10 9 12 100) = None
   \<and> status_Replicas (roomsRequest 10 9 12 100) \<noteq> 0
   \<and> roomsCounter (roomsRequest 10 9 12 100) = Some (rooms 12 100)
   \<and> 0 < sint (Capacity (rooms 12 100))
   \<and> capacityMode binary64 fixed_config (initialResponse (roomsRequest 10 9 12 100)) 10
         (rooms 12 100)
       = \<lparr>Scale = True, Replicas = 6, UID = ''uid-1''\<rparr>
   \<and> handleAutoscale binary64 fixed_config (roomsRequest 10 9 12 100)
       = ([], Inr \<lparr>Scale = False, Replicas = 10, UID = ''uid-1''\<rparr>)"
  by (simp add: handler_eval fixed_config_def initialResponse_def float_eval cong: let_weak_cong)

subsection \<open>C6: between the thresholds\<close>

text \<open>
  C6, as the code has it. In the threshold branch (override disabled, current replicas
  nonzero, no usable counter), with the allocated fraction strictly between the lower and
  the upper threshold, the handler answers \<^verbatim>\<open>Scale = false\<close> and the current replicas,
  unless \<^verbatim>\<open>maxReplicasCount\<close> is positive and below the current replicas: then the final
  check answers \<^verbatim>\<open>Scale = true\<close> and \<^verbatim>\<open>maxReplicasCount\<close>.
\<close>

theorem between_thresholds:
  assumes "\<not> fixedReplicasOverrideEnabled cfg"
    and "status_Replicas faReq \<noteq> 0"
    and "roomsCounter faReq = None"
    and "fgt fp (Quo fp (float64_of_int32 fp (status_AllocatedReplicas faReq))
                        (float64_of_int32 fp (status_Replicas faReq)))
             (replicaLowerThreshold cfg)"
    and "flt fp (Quo fp (float64_of_int32 fp (status_AllocatedReplicas faReq))
                        (float64_of_int32 fp (status_Replicas faReq)))
             (replicaUpperThreshold cfg)"
  shows "decide fp cfg faReq =
    Inr (if 0 < sint (maxReplicasCount cfg)
            \<and> sint (maxReplicasCount cfg) < sint (status_Replicas faReq)
         then \<lparr>Scale = True, Replicas = maxReplicasCount cfg, UID = request_UID faReq\<rparr>
         else \<lparr>Scale = False, Replicas = status_Replicas faReq, UID = request_UID faReq\<rparr>)"
  using assms
  by (simp add: decide_def handle_threshold thresholdMode_def enforceMax_def fgt_def flt_def
      Let_def initialResponse_def)

text \<open>5 of 10 replicas allocated without a maximum, and 2 of 5 under a maximum of 6.\<close>

theorem between_thresholds_witness:
  "decide binary64 (initial binary64) (plainRequest 10 5)
     = Inr \<lparr>Scale = False, Replicas = 10, UID = ''uid-1''\<rparr>
   \<and> decide binary64 max6_config (plainRequest 5 2)
     = Inr \<lparr>Scale = False, Replicas = 5, UID = ''uid-1''\<rparr>"
proof -
  have a: "\<not> fixedReplicasOverrideEnabled (initial binary64)"
    by (simp add: initial_def)
  have a': "\<not> fixedReplicasOverrideEnabled max6_config"
    by (simp add: max6_config_def initial_def)
  have b: "status_Replicas (plainRequest 10 5) \<noteq> 0" "status_Replicas (plainRequest 5 2) \<noteq> 0"
    by (simp_all add: plainRequest_def)
  have c: "roomsCounter (plainRequest 10 5) = None" "roomsCounter (plainRequest 5 2) = None"
    by (simp_all add: roomsCounter_def plainRequest_def)
  have d: "fgt binary64 (Quo binary64 (float64_of_int32 binary64 (status_AllocatedReplicas (plainRequest 10 5)))
                        (float64_of_int32 binary64 (status_Replicas (plainRequest 10 5))))
             (replicaLowerThreshold (initial binary64))"
    by (simp add: fgt_def binary64_sel initial_def plainRequest_def float_eval cong: let_weak_cong)
  have e: "flt binary64 (Quo binary64 (float64_of_int32 binary64 (status_AllocatedReplicas (plainRequest 10 5)))
                        (float64_of_int32 binary64 (status_Replicas (plainRequest 10 5))))
             (replicaUpperThreshold (initial binary64))"
    by (simp add: flt_def binary64_sel initial_def plainRequest_def float_eval cong: let_weak_cong)
  have d': "fgt binary64 (Quo binary64 (float64_of_int32 binary64 (status_AllocatedReplicas (plainRequest 5 2)))
                        (float64_of_int32 binary64 (status_Replicas (plainRequest 5 2))))
             (replicaLowerThreshold max6_config)"
    by (simp add: fgt_def binary64_sel initial_def max6_config_def plainRequest_def float_eval cong: let_weak_cong)
  have e': "flt binary64 (Quo binary64 (float64_of_int32 binary64 (status_AllocatedReplicas (plainRequest 5 2)))
                        (float64_of_int32 binary64 (status_Replicas (plainRequest 5 2))))
             (replicaUpperThreshold max6_config)"
    by (simp add: flt_def binary64_sel initial_def max6_config_def plainRequest_def float_eval cong: let_weak_cong)
  from between_thresholds [OF a b(1) c(1) d e] between_thresholds [OF a' b(2) c(2) d' e']
  show ?thesis
    by (simp add: initial_def max6_config_def plainRequest_def)
qed

text \<open>
  C6 as stated fails for current replicas above the maximum: 5 of 10 replicas allocated
  under a maximum of 6 is answered with \<^verbatim>\<open>Scale = true\<close> and 6 replicas.
\<close>

theorem between_thresholds_above_max:
  "\<not> fixedReplicasOverrideEnabled max6_config
   \<and> status_Replicas (plainRequest 10 5) \<noteq> 0
   \<and> roomsCounter (plainRequest 10 5) = None
   \<and> fgt binary64 (Quo binary64 (float64_of_int32 binary64 5) (float64_of_int32 binary64 10))
        (replicaLowerThreshold max6_config)
   \<and> flt binary64 (Quo binary64 (float64_of_int32 binary64 5) (float64_of_int32 binary64 10))
        (replicaUpperThreshold max6_config)
   \<and> decide binary64 max6_config (plainRequest 10 5)
       = Inr \<lparr>Scale = True, Replicas = 6, UID = ''uid-1''\<rparr>
   \<and> decide binary64 max6_config (plainRequest 10 5)
       \<noteq> Inr \<lparr>Scale = False, Replicas = 10, UID = ''uid-1''\<rparr>"
  by (simp add: handler_eval max6_config_def float_eval cong: let_weak_cong)

subsection \<open>C4: scaling down\<close>

text \<open>
  The two scaling cases of the threshold branch, for every float64 implementation.
  Scaling up is capped by a positive \<^verbatim>\<open>maxReplicasCount\<close>; scaling down passes the
  quotient on as it is, only the final check follows.
\<close>

lemma threshold_scale_up:
  assumes "\<not> fixedReplicasOverrideEnabled cfg"
    and "status_Replicas faReq \<noteq> 0"
    and "roomsCounter faReq = None"
    and "fgt fp (Quo fp (float64_of_int32 fp (status_AllocatedReplicas faReq))
                        (float64_of_int32 fp (status_Replicas faReq)))
             (replicaUpperThreshold cfg)"
  shows "decide fp cfg faReq =
    Inr \<lparr>Scale = True,
         Replicas =
           (let next = int32_of_float64 fp (Ceil fp
                  (Mul fp (float64_of_int32 fp (status_Replicas faReq)) (scaleFactor cfg)))
            in if 0 < sint (maxReplicasCount cfg) \<and> sint (maxReplicasCount cfg) < sint next
               then maxReplicasCount cfg else next),
         UID = request_UID faReq\<rparr>"
  using assms
  by (simp add: decide_def handle_threshold thresholdMode_def enforceMax_def Let_def
      initialResponse_def)

lemma threshold_scale_down:
  assumes "\<not> fixedReplicasOverrideEnabled cfg"
    and "status_Replicas faReq \<noteq> 0"
    and "roomsCounter faReq = None"
    and "\<not> fgt fp (Quo fp (float64_of_int32 fp (status_AllocatedReplicas faReq))
                          (float64_of_int32 fp (status_Replicas faReq)))
               (replicaUpperThreshold cfg)"
    and "flt fp (Quo fp (float64_of_int32 fp (status_AllocatedReplicas faReq))
                        (float64_of_int32 fp (status_Replicas faReq)))
             (replicaLowerThreshold cfg)"
    and "sint (minReplicasCount cfg) < sint (status_Replicas faReq)"
  shows "decide fp cfg faReq =
    Inr \<lparr>Scale = True,
         Replicas =
           (let next = int32_of_float64 fp (Ceil fp
                  (Quo fp (float64_of_int32 fp (status_Replicas faReq)) (scaleFactor cfg)))
            in if 0 < sint (maxReplicasCount cfg) \<and> sint (maxReplicasCount cfg) < sint next
               then maxReplicasCount cfg else next),
         UID = request_UID faReq\<rparr>"
  using assms
  by (simp add: decide_def handle_threshold thresholdMode_def enforceMax_def Let_def
      initialResponse_def)

text \<open>
  C4 says that the threshold branch, scaling down, never answers less than
  \<^verbatim>\<open>minReplicasCount\<close>. After a start with \<^verbatim>\<open>MIN_REPLICAS_COUNT=8\<close>, a fleet of 9 replicas
  with none allocated is below the lower threshold and above the minimum, and the handler
  answers with the ceiling of \<open>9 / 2\<close>, which is 5.
\<close>

theorem downscale_below_min:
  "getEnvVariables binary64 [''MIN_REPLICAS_COUNT'' \<mapsto> ''8''] (initial binary64) = Inr min8_config
   \<and> flt binary64 (Quo binary64 (float64_of_int32 binary64 0) (float64_of_int32 binary64 9))
        (replicaLowerThreshold min8_config)
   \<and> sint (minReplicasCount min8_config) < sint (9 :: int32)
   \<and> handleAutoscale binary64 min8_config (plainRequest 9 0)
       = ([AllocatedDivision 0 9, DownscaleDivision 9],
          Inr \<lparr>Scale = True, Replicas = 5, UID = ''uid-1''\<rparr>)
   \<and> sint (5 :: int32) < sint (minReplicasCount min8_config)"
proof -
  have 1: "getEnvVariables binary64 [''MIN_REPLICAS_COUNT'' \<mapsto> ''8''] (initial binary64)
      = Inr min8_config"
    by (simp add: config_eval min8_config_def float_eval cong: let_weak_cong)
  have 2: "handleAutoscale binary64 min8_config (plainRequest 9 0)
       = ([AllocatedDivision 0 9, DownscaleDivision 9],
          Inr \<lparr>Scale = True, Replicas = 5, UID = ''uid-1''\<rparr>)"
    by (simp add: handler_eval min8_config_def float_eval cong: let_weak_cong)
  have 3: "flt binary64 (Quo binary64 (float64_of_int32 binary64 0) (float64_of_int32 binary64 9))
        (replicaLowerThreshold min8_config)"
    by (simp add: flt_def binary64_sel initial_def min8_config_def float_eval cong: let_weak_cong)
  from 1 2 3 show ?thesis
    by (simp add: min8_config_def)
qed

subsection \<open>C7: scaling down right after scaling up\<close>

text \<open>
  C7 says that the decision taken right after an up-scale, on the new replicas and the
  same allocated replicas, is never a down-scale. After a start with the scale factor
  1.25 and the thresholds 0.9375 and 0.71875, which the checks of \<^verbatim>\<open>getEnvVariables\<close>
  accept as they are, 5 replicas all allocated are scaled up to the ceiling of 6.25,
  which is 7; then 5 of 7 is below the lower threshold and the 7 replicas are scaled down
  to the ceiling of 5.6, which is 6.
\<close>

theorem downscale_right_after_upscale:
  "getEnvVariables binary64 flap_env (initial binary64) = Inr flap_config
   \<and> fgt binary64 (Quo binary64 (float64_of_int32 binary64 5) (float64_of_int32 binary64 5))
        (replicaUpperThreshold flap_config)
   \<and> handleAutoscale binary64 flap_config (plainRequest 5 5)
       = ([AllocatedDivision 5 5], Inr \<lparr>Scale = True, Replicas = 7, UID = ''uid-1''\<rparr>)
   \<and> flt binary64 (Quo binary64 (float64_of_int32 binary64 5) (float64_of_int32 binary64 7))
        (replicaLowerThreshold flap_config)
   \<and> handleAutoscale binary64 flap_config (plainRequest 7 5)
       = ([AllocatedDivision 5 7, DownscaleDivision 7],
          Inr \<lparr>Scale = True, Replicas = 6, UID = ''uid-1''\<rparr>)"
proof -
  have 1: "getEnvVariables binary64 flap_env (initial binary64) = Inr flap_config"
    by (simp add: config_eval flap_env_def flap_config_def float_eval cong: let_weak_cong)
  have 2: "handleAutoscale binary64 flap_config (plainRequest 5 5)
       = ([AllocatedDivision 5 5], Inr \<lparr>Scale = True, Replicas = 7, UID = ''uid-1''\<rparr>)"
    by (simp add: handler_eval flap_config_def float_eval cong: let_weak_cong)
  have 3: "handleAutoscale binary64 flap_config (plainRequest 7 5)
       = ([AllocatedDivision 5 7, DownscaleDivision 7],
          Inr \<lparr>Scale = True, Replicas = 6, UID = ''uid-1''\<rparr>)"
    by (simp add: handler_eval flap_config_def float_eval cong: let_weak_cong)
  have 4: "fgt binary64 (Quo binary64 (float64_of_int32 binary64 5) (float64_of_int32 binary64 5))
        (replicaUpperThreshold flap_config)"
    by (simp add: fgt_def binary64_sel flap_config_def float_eval cong: let_weak_cong)
  have 5: "flt binary64 (Quo binary64 (float64_of_int32 binary64 5) (float64_of_int32 binary64 7))
        (replicaLowerThreshold flap_config)"
    by (simp add: flt_def binary64_sel flap_config_def float_eval cong: let_weak_cong)
  from 1 2 3 4 5 show ?thesis by simp
qed

subsection \<open>C10: when the start ends the process\<close>

text \<open>A variable that is not set is not read; unsetting one leaves the others as they are.\<close>

lemma Getenv_unset: "Getenv (env(k := None)) k = []"
  by (simp add: Getenv_def)

lemma Getenv_other: "k' \<noteq> k \<Longrightarrow> Getenv (env(k := None)) k' = Getenv env k'"
  by (simp add: Getenv_def)

lemma exit_SCALE_FACTOR:
  "(\<exists>e. read_SCALE_FACTOR fp env cfg = Inl e) \<longleftrightarrow> float_unparsable fp env ''SCALE_FACTOR''"
  by (auto simp: read_SCALE_FACTOR_def float_unparsable_def Let_def split: option.splits)

lemma exit_REPLICA_UPSCALE_TRIGGER:
  "(\<exists>e. read_REPLICA_UPSCALE_TRIGGER fp env cfg = Inl e)
     \<longleftrightarrow> float_unparsable fp env ''REPLICA_UPSCALE_TRIGGER''"
  by (auto simp: read_REPLICA_UPSCALE_TRIGGER_def float_unparsable_def Let_def
      split: option.splits)

lemma exit_REPLICA_DOWNSCALE_TRIGGER:
  "(\<exists>e. read_REPLICA_DOWNSCALE_TRIGGER fp env cfg = Inl e)
     \<longleftrightarrow> float_unparsable fp env ''REPLICA_DOWNSCALE_TRIGGER''"
  by (auto simp: read_REPLICA_DOWNSCALE_TRIGGER_def float_unparsable_def Let_def
      split: option.splits)

lemma exit_MIN_REPLICAS_COUNT:
  "(\<exists>e. read_MIN_REPLICAS_COUNT env cfg = Inl e) \<longleftrightarrow> int_unparsable env ''MIN_REPLICAS_COUNT''"
  by (auto simp: read_MIN_REPLICAS_COUNT_def int_unparsable_def Let_def split: option.splits)

lemma exit_MAX_REPLICAS_COUNT:
  "(\<exists>e. read_MAX_REPLICAS_COUNT env cfg = Inl e) \<longleftrightarrow> int_unparsable env ''MAX_REPLICAS_COUNT''"
  by (auto simp: read_MAX_REPLICAS_COUNT_def int_unparsable_def Let_def split: option.splits)

lemma exit_code:
  "read_SCALE_FACTOR fp env cfg = Inl e \<Longrightarrow> e = Exit 1"
  "read_REPLICA_UPSCALE_TRIGGER fp env cfg = Inl e \<Longrightarrow> e = Exit 1"
  "read_REPLICA_DOWNSCALE_TRIGGER fp env cfg = Inl e \<Longrightarrow> e = Exit 1"
  "read_MIN_REPLICAS_COUNT env cfg = Inl e \<Longrightarrow> e = Exit 1"
  "read_MAX_REPLICAS_COUNT env cfg = Inl e \<Longrightarrow> e = Exit 1"
  by (auto simp: read_SCALE_FACTOR_def read_REPLICA_UPSCALE_TRIGGER_def
      read_REPLICA_DOWNSCALE_TRIGGER_def read_MIN_REPLICAS_COUNT_def read_MAX_REPLICAS_COUNT_def
      Let_def split: option.splits if_splits)

lemma getEnvVariables_exit:
  "getEnvVariables fp env cfg = Inl (Exit 1) \<longleftrightarrow>
     float_unparsable fp env ''SCALE_FACTOR''
   \<or> float_unparsable fp env ''REPLICA_UPSCALE_TRIGGER''
   \<or> float_unparsable fp env ''REPLICA_DOWNSCALE_TRIGGER''
   \<or> int_unparsable env ''MIN_REPLICAS_COUNT''
   \<or> int_unparsable env ''MAX_REPLICAS_COUNT''"
proof (cases "read_SCALE_FACTOR fp env cfg")
  case (Inl e)
  then show ?thesis
    using exit_SCALE_FACTOR [of fp env cfg] exit_code(1) [of fp env cfg e]
    by (auto simp: getEnvVariables_def)
next
  case c1: (Inr cfg1)
  then have n1: "\<not> float_unparsable fp env ''SCALE_FACTOR''"
    using exit_SCALE_FACTOR [of fp env cfg] by auto
  show ?thesis
  proof (cases "read_REPLICA_UPSCALE_TRIGGER fp env cfg1")
    case (Inl e)
    then show ?thesis
      using c1 exit_REPLICA_UPSCALE_TRIGGER [of fp env cfg1] exit_code(2) [of fp env cfg1 e]
      by (auto simp: getEnvVariables_def)
  next
    case c2: (Inr cfg2)
    then have n2: "\<not> float_unparsable fp env ''REPLICA_UPSCALE_TRIGGER''"
      using exit_REPLICA_UPSCALE_TRIGGER [of fp env cfg1] by auto
    show ?thesis
    proof (cases "read_REPLICA_DOWNSCALE_TRIGGER fp env cfg2")
      case (Inl e)
      then show ?thesis
        using c1 c2 exit_REPLICA_DOWNSCALE_TRIGGER [of fp env cfg2]
          exit_code(3) [of fp env cfg2 e]
        by (auto simp: getEnvVariables_def)
    next
      case c3: (Inr cfg3)
      then have n3: "\<not> float_unparsable fp env ''REPLICA_DOWNSCALE_TRIGGER''"
        using exit_REPLICA_DOWNSCALE_TRIGGER [of fp env cfg2] by auto
      show ?thesis
      proof (cases "read_MIN_REPLICAS_COUNT env cfg3")
        case (Inl e)
        then show ?thesis
          using c1 c2 c3 exit_MIN_REPLICAS_COUNT [of env cfg3] exit_code(4) [of env cfg3 e]
          by (auto simp: getEnvVariables_def)
      next
        case c4: (Inr cfg4)
        then have n4: "\<not> int_unparsable env ''MIN_REPLICAS_COUNT''"
          using exit_MIN_REPLICAS_COUNT [of env cfg3] by auto
        show ?thesis
        proof (cases "read_MAX_REPLICAS_COUNT env cfg4")
          case (Inl e)
          then show ?thesis
            using c1 c2 c3 c4 exit_MAX_REPLICAS_COUNT [of env cfg4] exit_code(5) [of env cfg4 e]
            by (auto simp: getEnvVariables_def)
        next
          case c5: (Inr cfg5)
          then have n5: "\<not> int_unparsable env ''MAX_REPLICAS_COUNT''"
            using exit_MAX_REPLICAS_COUNT [of env cfg4] by auto
          from c1 c2 c3 c4 c5 n1 n2 n3 n4 n5 show ?thesis
            by (simp add: getEnvVariables_def)
        qed
      qed
    qed
  qed
qed

lemma getEnvVariables_exit_code:
  "getEnvVariables fp env cfg = Inl e \<Longrightarrow> e = Exit 1"
  by (auto simp: getEnvVariables_def split: sum.splits dest: exit_code)

lemma unset_other:
  "k \<noteq> ''SCALE_FACTOR'' \<Longrightarrow>
     read_SCALE_FACTOR fp (env(k := None)) cfg = read_SCALE_FACTOR fp env cfg"
  "k \<noteq> ''REPLICA_UPSCALE_TRIGGER'' \<Longrightarrow>
     read_REPLICA_UPSCALE_TRIGGER fp (env(k := None)) cfg = read_REPLICA_UPSCALE_TRIGGER fp env cfg"
  "k \<noteq> ''REPLICA_DOWNSCALE_TRIGGER'' \<Longrightarrow>
     read_REPLICA_DOWNSCALE_TRIGGER fp (env(k := None)) cfg
       = read_REPLICA_DOWNSCALE_TRIGGER fp env cfg"
  "k \<noteq> ''MIN_REPLICAS_COUNT'' \<Longrightarrow>
     read_MIN_REPLICAS_COUNT (env(k := None)) cfg = read_MIN_REPLICAS_COUNT env cfg"
  "k \<noteq> ''MAX_REPLICAS_COUNT'' \<Longrightarrow>
     read_MAX_REPLICAS_COUNT (env(k := None)) cfg = read_MAX_REPLICAS_COUNT env cfg"
  "k \<noteq> ''FIXED_REPLICAS'' \<Longrightarrow>
     read_FIXED_REPLICAS (env(k := None)) cfg = read_FIXED_REPLICAS env cfg"
  by (simp_all add: read_SCALE_FACTOR_def read_REPLICA_UPSCALE_TRIGGER_def
      read_REPLICA_DOWNSCALE_TRIGGER_def read_MIN_REPLICAS_COUNT_def read_MAX_REPLICAS_COUNT_def
      read_FIXED_REPLICAS_def Getenv_other)

lemma discard_SCALE_FACTOR:
  assumes "ParseFloat fp (Getenv env ''SCALE_FACTOR'') = Some x" and "\<not> fgt fp x (literal fp 1)"
  shows "getEnvVariables fp env cfg = getEnvVariables fp (env(''SCALE_FACTOR'' := None)) cfg"
proof -
  have "read_SCALE_FACTOR fp env cfg = Inr cfg"
    using assms by (simp add: read_SCALE_FACTOR_def Let_def)
  moreover have "read_SCALE_FACTOR fp (env(''SCALE_FACTOR'' := None)) cfg = Inr cfg"
    by (simp add: read_SCALE_FACTOR_def Getenv_unset)
  ultimately show ?thesis
    by (simp add: getEnvVariables_def unset_other cong: sum.case_cong)
qed

lemma discard_REPLICA_UPSCALE_TRIGGER:
  assumes "ParseFloat fp (Getenv env ''REPLICA_UPSCALE_TRIGGER'') = Some x"
    and "\<not> fgt fp x (literal fp (1 / 10))"
  shows "getEnvVariables fp env cfg
           = getEnvVariables fp (env(''REPLICA_UPSCALE_TRIGGER'' := None)) cfg"
proof -
  have "read_REPLICA_UPSCALE_TRIGGER fp env c = Inr c" for c
    using assms by (simp add: read_REPLICA_UPSCALE_TRIGGER_def Let_def)
  moreover
  have "read_REPLICA_UPSCALE_TRIGGER fp (env(''REPLICA_UPSCALE_TRIGGER'' := None)) c = Inr c"
    for c
    by (simp add: read_REPLICA_UPSCALE_TRIGGER_def Getenv_unset)
  ultimately show ?thesis
    by (simp add: getEnvVariables_def unset_other cong: sum.case_cong)
qed

lemma discard_REPLICA_DOWNSCALE_TRIGGER:
  assumes "read_SCALE_FACTOR fp env cfg = Inr cfg1"
    and "read_REPLICA_UPSCALE_TRIGGER fp env cfg1 = Inr cfg2"
    and "ParseFloat fp (Getenv env ''REPLICA_DOWNSCALE_TRIGGER'') = Some x"
    and "\<not> flt fp x (Quo fp (replicaUpperThreshold cfg2) (scaleFactor cfg2))"
  shows "getEnvVariables fp env cfg
           = getEnvVariables fp (env(''REPLICA_DOWNSCALE_TRIGGER'' := None)) cfg"
proof -
  have "read_REPLICA_DOWNSCALE_TRIGGER fp env cfg2 = Inr cfg2"
    using assms by (simp add: read_REPLICA_DOWNSCALE_TRIGGER_def Let_def)
  moreover
  have "read_REPLICA_DOWNSCALE_TRIGGER fp (env(''REPLICA_DOWNSCALE_TRIGGER'' := None)) cfg2
          = Inr cfg2"
    by (simp add: read_REPLICA_DOWNSCALE_TRIGGER_def Getenv_unset)
  ultimately show ?thesis
    using assms(1,2) by (simp add: getEnvVariables_def unset_other cong: sum.case_cong)
qed

lemma discard_MIN_REPLICAS_COUNT:
  assumes "ParseInt (Getenv env ''MIN_REPLICAS_COUNT'') 32 = Some n" and "n < 0"
  shows "getEnvVariables fp env cfg = getEnvVariables fp (env(''MIN_REPLICAS_COUNT'' := None)) cfg"
proof -
  have "read_MIN_REPLICAS_COUNT env c = Inr c" for c :: "'a config"
    using assms by (simp add: read_MIN_REPLICAS_COUNT_def Let_def)
  moreover have "read_MIN_REPLICAS_COUNT (env(''MIN_REPLICAS_COUNT'' := None)) c = Inr c"
    for c :: "'a config"
    by (simp add: read_MIN_REPLICAS_COUNT_def Getenv_unset)
  ultimately show ?thesis
    by (simp add: getEnvVariables_def unset_other cong: sum.case_cong)
qed

lemma discard_MAX_REPLICAS_COUNT:
  assumes "ParseInt (Getenv env ''MAX_REPLICAS_COUNT'') 32 = Some n" and "n < 0"
  shows "getEnvVariables fp env cfg = getEnvVariables fp (env(''MAX_REPLICAS_COUNT'' := None)) cfg"
proof -
  have "read_MAX_REPLICAS_COUNT env c = Inr c" for c :: "'a config"
    using assms by (simp add: read_MAX_REPLICAS_COUNT_def Let_def)
  moreover have "read_MAX_REPLICAS_COUNT (env(''MAX_REPLICAS_COUNT'' := None)) c = Inr c"
    for c :: "'a config"
    by (simp add: read_MAX_REPLICAS_COUNT_def Getenv_unset)
  ultimately show ?thesis
    by (simp add: getEnvVariables_def unset_other cong: sum.case_cong)
qed

text \<open>
  C10. \<^verbatim>\<open>getEnvVariables\<close> ends the process, with exit status 1, exactly when one of the
  five numeric variables is set to a value that does not parse as its type. A value that
  parses and fails its range check (a scale factor not above 1, an upper threshold not
  above 0.1, a lower threshold not below the upper threshold over the scale factor as
  they stand when it is read, a negative minimum or maximum) is discarded without a
  trace: the run is the run with that variable not set, so the variable keeps the value
  it had.
\<close>

theorem exit_only_on_parse_failure:
  "(getEnvVariables fp env cfg = Inl (Exit 1) \<longleftrightarrow>
       float_unparsable fp env ''SCALE_FACTOR''
     \<or> float_unparsable fp env ''REPLICA_UPSCALE_TRIGGER''
     \<or> float_unparsable fp env ''REPLICA_DOWNSCALE_TRIGGER''
     \<or> int_unparsable env ''MIN_REPLICAS_COUNT''
     \<or> int_unparsable env ''MAX_REPLICAS_COUNT'')
   \<and> (\<forall>e. getEnvVariables fp env cfg = Inl e \<longrightarrow> e = Exit 1)
   \<and> (ParseFloat fp (Getenv env ''SCALE_FACTOR'') = Some x1 \<and> \<not> fgt fp x1 (literal fp 1) \<longrightarrow>
        getEnvVariables fp env cfg = getEnvVariables fp (env(''SCALE_FACTOR'' := None)) cfg)
   \<and> (ParseFloat fp (Getenv env ''REPLICA_UPSCALE_TRIGGER'') = Some x2
        \<and> \<not> fgt fp x2 (literal fp (1 / 10)) \<longrightarrow>
        getEnvVariables fp env cfg
          = getEnvVariables fp (env(''REPLICA_UPSCALE_TRIGGER'' := None)) cfg)
   \<and> (read_SCALE_FACTOR fp env cfg = Inr cfg1
        \<and> read_REPLICA_UPSCALE_TRIGGER fp env cfg1 = Inr cfg2
        \<and> ParseFloat fp (Getenv env ''REPLICA_DOWNSCALE_TRIGGER'') = Some x3
        \<and> \<not> flt fp x3 (Quo fp (replicaUpperThreshold cfg2) (scaleFactor cfg2)) \<longrightarrow>
        getEnvVariables fp env cfg
          = getEnvVariables fp (env(''REPLICA_DOWNSCALE_TRIGGER'' := None)) cfg)
   \<and> (ParseInt (Getenv env ''MIN_REPLICAS_COUNT'') 32 = Some n1 \<and> n1 < 0 \<longrightarrow>
        getEnvVariables fp env cfg
          = getEnvVariables fp (env(''MIN_REPLICAS_COUNT'' := None)) cfg)
   \<and> (ParseInt (Getenv env ''MAX_REPLICAS_COUNT'') 32 = Some n2 \<and> n2 < 0 \<longrightarrow>
        getEnvVariables fp env cfg
          = getEnvVariables fp (env(''MAX_REPLICAS_COUNT'' := None)) cfg)"
  using getEnvVariables_exit [of fp env cfg] getEnvVariables_exit_code [of fp env cfg]
    discard_SCALE_FACTOR [of fp env x1 cfg] discard_REPLICA_UPSCALE_TRIGGER [of fp env x2 cfg]
    discard_REPLICA_DOWNSCALE_TRIGGER [of fp env cfg cfg1 cfg2 x3]
    discard_MIN_REPLICAS_COUNT [of env n1 fp cfg] discard_MAX_REPLICAS_COUNT [of env n2 fp cfg]
  by blast

text \<open>
  A start in which all five values parse and each fails its range check leaves the
  declared values, as does the same start with any one of the five variables not set; a
  maximum of \<^verbatim>\<open>six\<close> ends the process.
\<close>

theorem exit_only_on_parse_failure_witness:
  "getEnvVariables binary64 out_of_range_env (initial binary64) = Inr (initial binary64)
   \<and> getEnvVariables binary64 (out_of_range_env(''SCALE_FACTOR'' := None)) (initial binary64)
       = Inr (initial binary64)
   \<and> getEnvVariables binary64 (out_of_range_env(''REPLICA_UPSCALE_TRIGGER'' := None))
         (initial binary64)
       = Inr (initial binary64)
   \<and> getEnvVariables binary64 (out_of_range_env(''REPLICA_DOWNSCALE_TRIGGER'' := None))
         (initial binary64)
       = Inr (initial binary64)
   \<and> getEnvVariables binary64 (out_of_range_env(''MIN_REPLICAS_COUNT'' := None))
         (initial binary64)
       = Inr (initial binary64)
   \<and> getEnvVariables binary64 (out_of_range_env(''MAX_REPLICAS_COUNT'' := None))
         (initial binary64)
       = Inr (initial binary64)
   \<and> getEnvVariables binary64 [''MAX_REPLICAS_COUNT'' \<mapsto> ''six''] (initial binary64)
       = Inl (Exit 1)"
proof -
  have run: "getEnvVariables binary64 out_of_range_env (initial binary64) = Inr (initial binary64)"
    by (simp add: config_eval out_of_range_env_def float_eval cong: let_weak_cong)
  have p1: "ParseFloat binary64 (Getenv out_of_range_env ''SCALE_FACTOR'') = Some (Finite (1 / 2))
      \<and> \<not> fgt binary64 (Finite (1 / 2)) (literal binary64 1)"
    by (simp add: Getenv_def out_of_range_env_def binary64_sel parse_decimal_def digit_def fgt_def
        float_eval cong: let_weak_cong)
  have p2: "ParseFloat binary64 (Getenv out_of_range_env ''REPLICA_UPSCALE_TRIGGER'')
        = Some (Finite (3602879701896397 / 72057594037927936))
      \<and> \<not> fgt binary64 (Finite (3602879701896397 / 72057594037927936))
            (literal binary64 (1 / 10))"
    by (simp add: Getenv_def out_of_range_env_def binary64_sel parse_decimal_def digit_def fgt_def
        float_eval cong: let_weak_cong)
  have p3: "read_SCALE_FACTOR binary64 out_of_range_env (initial binary64) = Inr (initial binary64)
      \<and> read_REPLICA_UPSCALE_TRIGGER binary64 out_of_range_env (initial binary64)
          = Inr (initial binary64)
      \<and> ParseFloat binary64 (Getenv out_of_range_env ''REPLICA_DOWNSCALE_TRIGGER'')
          = Some (Finite (8106479329266893 / 9007199254740992))
      \<and> \<not> flt binary64 (Finite (8106479329266893 / 9007199254740992))
            (Quo binary64 (replicaUpperThreshold (initial binary64))
               (scaleFactor (initial binary64)))"
    by (simp add: config_eval out_of_range_env_def float_eval cong: let_weak_cong)
  have p4: "ParseInt (Getenv out_of_range_env ''MIN_REPLICAS_COUNT'') 32 = Some (- 1)
      \<and> (- 1 :: int) < 0"
    by (simp add: Getenv_def out_of_range_env_def ParseInt_def digit_def)
  have p5: "ParseInt (Getenv out_of_range_env ''MAX_REPLICAS_COUNT'') 32 = Some (- 2)
      \<and> (- 2 :: int) < 0"
    by (simp add: Getenv_def out_of_range_env_def ParseInt_def digit_def)
  have p6: "int_unparsable [''MAX_REPLICAS_COUNT'' \<mapsto> ''six''] ''MAX_REPLICAS_COUNT''"
    by (simp add: int_unparsable_def Getenv_def ParseInt_def digit_def)
  note t = exit_only_on_parse_failure
         [where fp = binary64 and env = out_of_range_env and cfg = "initial binary64"
            and ?x1.0 = "Finite (1 / 2)"
            and ?x2.0 = "Finite (3602879701896397 / 72057594037927936)"
            and ?cfg1.0 = "initial binary64" and ?cfg2.0 = "initial binary64"
            and ?x3.0 = "Finite (8106479329266893 / 9007199254740992)"
            and ?n1.0 = "- 1" and ?n2.0 = "- 2"]
  from t p1
  have d1: "getEnvVariables binary64 out_of_range_env (initial binary64)
      = getEnvVariables binary64 (out_of_range_env(''SCALE_FACTOR'' := None)) (initial binary64)"
    by blast
  from t p2
  have d2: "getEnvVariables binary64 out_of_range_env (initial binary64)
      = getEnvVariables binary64 (out_of_range_env(''REPLICA_UPSCALE_TRIGGER'' := None))
          (initial binary64)"
    by blast
  from t p3
  have d3: "getEnvVariables binary64 out_of_range_env (initial binary64)
      = getEnvVariables binary64 (out_of_range_env(''REPLICA_DOWNSCALE_TRIGGER'' := None))
          (initial binary64)"
    by blast
  from t p4
  have d4: "getEnvVariables binary64 out_of_range_env (initial binary64)
      = getEnvVariables binary64 (out_of_range_env(''MIN_REPLICAS_COUNT'' := None))
          (initial binary64)"
    by blast
  from t p5
  have d5: "getEnvVariables binary64 out_of_range_env (initial binary64)
      = getEnvVariables binary64 (out_of_range_env(''MAX_REPLICAS_COUNT'' := None))
          (initial binary64)"
    by blast
  from exit_only_on_parse_failure
         [where fp = binary64 and env = "[''MAX_REPLICAS_COUNT'' \<mapsto> ''six'']"
            and cfg = "initial binary64"] p6
  have exit: "getEnvVariables binary64 [''MAX_REPLICAS_COUNT'' \<mapsto> ''six''] (initial binary64)
       = Inl (Exit 1)"
    by blast
  from run d1 [symmetric] d2 [symmetric] d3 [symmetric] d4 [symmetric] d5 [symmetric] exit
  show ?thesis by simp
qed

end
